theory Spec2Isabelle
  imports Main
begin

section \<open>JavaScript values, objects and strings\<close>

text \<open>
  The pages keep plain JavaScript objects: a document read from the store is spread into a
  local object together with its identifier, and the edit buffers are such objects. An
  object is a finite map from property names to values; an absent property is
  \<open>undefined\<close>.
\<close>

datatype jsval = Str string | Bool bool

type_synonym obj = "string \<rightharpoonup> jsval"

datatype exn = TypeError | InvalidArgument | StoreError

text \<open>
  \<open>String.prototype.toLowerCase\<close> on the characters of \<^typ>\<open>string\<close>: the letters
  \<open>A\<close> to \<open>Z\<close> (codes 65 to 90) move to \<open>a\<close> to \<open>z\<close>, every other character stays.
\<close>

definition lowerChar :: "char \<Rightarrow> char" where
  "lowerChar c =
     (if 65 \<le> (of_char c :: nat) \<and> (of_char c :: nat) \<le> 90
      then char_of ((of_char c :: nat) + 32) else c)"

definition toLowerCase :: "string \<Rightarrow> string" where
  "toLowerCase s = map lowerChar s"

section \<open>The remote document store\<close>

text \<open>
  A collection is a sequence of documents, each an identifier with its field map. Every
  call to the store is recorded with its outcome. The environment decides which calls the
  store rejects (by the number of calls issued before), the identifier \<open>addDoc\<close>
  generates, the clock, the answer to \<open>window.confirm\<close> and \<open>window.location.origin\<close>.
\<close>

type_synonym document = "string \<times> obj"

datatype store_call =
    GetDocs string "(string \<times> jsval) list"
  | AddDoc string obj
  | UpdateDoc string string obj
  | DeleteDoc string string

record backend =
  db :: "string \<Rightarrow> document list"
  calls :: "(store_call \<times> bool) list"

record env =
  fails :: "nat \<Rightarrow> bool"
  autoId :: "nat \<Rightarrow> string"
  now :: string
  confirm :: bool
  origin :: string

definition matches :: "(string \<times> jsval) list \<Rightarrow> document \<Rightarrow> bool" where
  "matches conds d = list_all (\<lambda>(k, v). snd d k = Some v) conds"

text \<open>\<open>getDocs(query(collection(db, c), where(k1, '==', v1), ...))\<close>\<close>

definition getDocs ::
  "env \<Rightarrow> string \<Rightarrow> (string \<times> jsval) list \<Rightarrow> backend \<Rightarrow> (exn + document list) \<times> backend" where
  "getDocs e c conds b =
     (if fails e (length (calls b))
      then (Inl StoreError, b\<lparr>calls := calls b @ [(GetDocs c conds, False)]\<rparr>)
      else (Inr (filter (matches conds) (db b c)),
            b\<lparr>calls := calls b @ [(GetDocs c conds, True)]\<rparr>))"

text \<open>\<open>addDoc(collection(db, c), data)\<close>: a new document under a generated identifier.\<close>

definition addDoc :: "env \<Rightarrow> string \<Rightarrow> obj \<Rightarrow> backend \<Rightarrow> (exn + string) \<times> backend" where
  "addDoc e c data b =
     (if fails e (length (calls b))
      then (Inl StoreError, b\<lparr>calls := calls b @ [(AddDoc c data, False)]\<rparr>)
      else (Inr (autoId e (length (calls b))),
            b\<lparr>db := (db b)(c := db b c @ [(autoId e (length (calls b)), data)]),
              calls := calls b @ [(AddDoc c data, True)]\<rparr>))"

text \<open>
  \<open>updateDoc(doc(db, c, i), data)\<close>: the fields of \<open>data\<close> are written over those of the
  document, its other fields stay; the call is rejected when no such document exists.
\<close>

definition updateFields :: "string \<Rightarrow> obj \<Rightarrow> document \<Rightarrow> document" where
  "updateFields i data d = (if fst d = i then (fst d, snd d ++ data) else d)"

definition updateDoc ::
  "env \<Rightarrow> string \<Rightarrow> string \<Rightarrow> obj \<Rightarrow> backend \<Rightarrow> (exn + unit) \<times> backend" where
  "updateDoc e c i data b =
     (if fails e (length (calls b)) \<or> i \<notin> fst ` set (db b c)
      then (Inl StoreError, b\<lparr>calls := calls b @ [(UpdateDoc c i data, False)]\<rparr>)
      else (Inr (),
            b\<lparr>db := (db b)(c := map (updateFields i data) (db b c)),
              calls := calls b @ [(UpdateDoc c i data, True)]\<rparr>))"

text \<open>\<open>deleteDoc(doc(db, c, i))\<close>\<close>

definition deleteDoc :: "env \<Rightarrow> string \<Rightarrow> string \<Rightarrow> backend \<Rightarrow> (exn + unit) \<times> backend" where
  "deleteDoc e c i b =
     (if fails e (length (calls b))
      then (Inl StoreError, b\<lparr>calls := calls b @ [(DeleteDoc c i, False)]\<rparr>)
      else (Inr (),
            b\<lparr>db := (db b)(c := filter (\<lambda>d. fst d \<noteq> i) (db b c)),
              calls := calls b @ [(DeleteDoc c i, True)]\<rparr>))"

text \<open>\<open>Promise.all\<close> of two requests: both are issued, one rejection rejects the pair.\<close>

definition promiseAll :: "exn + 'a \<Rightarrow> exn + 'b \<Rightarrow> exn + 'a \<times> 'b" where
  "promiseAll ra rb =
     (case ra of Inl x \<Rightarrow> Inl x
      | Inr a \<Rightarrow> (case rb of Inl y \<Rightarrow> Inl y | Inr b \<Rightarrow> Inr (a, b)))"

text \<open>\<open>{ id: doc.id, ...doc.data() }\<close>\<close>

definition fromDoc :: "document \<Rightarrow> obj" where
  "fromDoc d = [''id'' \<mapsto> Str (fst d)] ++ snd d"

section \<open>The client page (ClientManagement.tsx)\<close>

datatype alert_type = AlertSuccess | AlertError | AlertInfo

record client_draft =
  name :: string
  email :: string
  phone :: string

text \<open>What both pages hold: the modal flag, the user of \<open>useAuth\<close> and the store.\<close>

record page =
  isModalOpen :: bool
  currentUser :: "string option"
  store :: backend

record client_page = page +
  clients :: "obj list"
  isViewModalOpen :: bool
  onboardingLink :: string
  selectedClient :: "obj option"
  newClient :: client_draft
  editingClient :: "obj option"
  isAddLoading :: bool
  isEditLoading :: bool
  isDeleteLoading :: "string option"
  isTableLoading :: bool
  viewingClient :: "obj option"
  alerts :: "(string \<times> alert_type) list"

definition showAlert :: "string \<Rightarrow> alert_type \<Rightarrow> client_page \<Rightarrow> client_page" where
  "showAlert msg ty s = s\<lparr>alerts := alerts s @ [(msg, ty)]\<rparr>"

definition fetchClients :: "env \<Rightarrow> client_page \<Rightarrow> client_page" where
  "fetchClients e s =
     (case currentUser s of
        None \<Rightarrow> s
      | Some uid \<Rightarrow>
          (case getDocs e ''clients'' [(''userId'', Str uid)]
                  (store (s\<lparr>isTableLoading := True\<rparr>)) of
             (Inr docs, b) \<Rightarrow>
               s\<lparr>store := b, clients := map fromDoc docs, isTableLoading := False\<rparr>
           | (Inl err, b) \<Rightarrow>
               (showAlert ''Failed to fetch clients'' AlertError (s\<lparr>store := b\<rparr>))
                 \<lparr>isTableLoading := False\<rparr>))"

text \<open>The effect run when the current user changes.\<close>

definition useEffect :: "env \<Rightarrow> client_page \<Rightarrow> client_page" where
  "useEffect e s =
     (case currentUser s of
        None \<Rightarrow> s
      | Some uid \<Rightarrow> (fetchClients e s)\<lparr>onboardingLink := origin e @ ''/onboard/'' @ uid\<rparr>)"

text \<open>
  \<open>handleAddClient\<close>: the two existence queries are built from the draft and issued
  together; the write follows only when both come back empty.
\<close>

definition emailQuery :: "string \<Rightarrow> string \<Rightarrow> (string \<times> jsval) list" where
  "emailQuery uid em = [(''userId'', Str uid), (''email'', Str (toLowerCase em))]"

definition phoneQuery :: "string \<Rightarrow> jsval \<Rightarrow> (string \<times> jsval) list" where
  "phoneQuery uid ph = [(''userId'', Str uid), (''phone'', ph)]"

definition clientData :: "string \<Rightarrow> client_draft \<Rightarrow> obj" where
  "clientData uid d =
     [''name'' \<mapsto> Str (name d), ''email'' \<mapsto> Str (toLowerCase (email d)),
      ''phone'' \<mapsto> Str (phone d), ''userId'' \<mapsto> Str uid]"

definition addClientWrite :: "env \<Rightarrow> string \<Rightarrow> client_page \<Rightarrow> client_page" where
  "addClientWrite e uid s =
     (case addDoc e ''clients'' (clientData uid (newClient s))
             (store (s\<lparr>isAddLoading := True\<rparr>)) of
        (Inr ref, b) \<Rightarrow>
          (fetchClients e
             ((showAlert ''Client added successfully'' AlertSuccess (s\<lparr>store := b\<rparr>))
                \<lparr>isModalOpen := False,
                 newClient := \<lparr>name = [], email = [], phone = []\<rparr>\<rparr>))
            \<lparr>isAddLoading := False\<rparr>
      | (Inl err, b) \<Rightarrow>
          (showAlert ''Failed to add client. Please try again later.'' AlertError
             (s\<lparr>store := b\<rparr>))\<lparr>isAddLoading := False\<rparr>)"

definition handleAddClient :: "env \<Rightarrow> client_page \<Rightarrow> client_page" where
  "handleAddClient e s =
     (case currentUser s of
        None \<Rightarrow> showAlert ''You must be logged in to add a client.'' AlertError s
      | Some uid \<Rightarrow>
          (case getDocs e ''clients'' (emailQuery uid (email (newClient s))) (store s) of
             (emailRes, b1) \<Rightarrow>
          (case getDocs e ''clients'' (phoneQuery uid (Str (phone (newClient s)))) b1 of
             (phoneRes, b2) \<Rightarrow>
          (case promiseAll emailRes phoneRes of
             Inl err \<Rightarrow>
               showAlert ''Error checking for duplicate clients.'' AlertError (s\<lparr>store := b2\<rparr>)
           | Inr (emailSnapshot, phoneSnapshot) \<Rightarrow>
               if emailSnapshot \<noteq> [] then
                 showAlert ''A client with this email already exists.'' AlertError
                   (s\<lparr>store := b2\<rparr>)
               else if phoneSnapshot \<noteq> [] then
                 showAlert ''A client with this phone number already exists.'' AlertError
                   (s\<lparr>store := b2\<rparr>)
               else addClientWrite e uid (s\<lparr>store := b2\<rparr>)))))"

text \<open>
  \<open>handleEditClient\<close>. The body of the first \<open>try\<close> reads \<open>currentUser.uid\<close>, calls
  \<open>toLowerCase\<close> on the buffer's email and hands the buffer's phone to \<open>where\<close> before any
  request leaves: a missing user or a property that is not there throws at that point.
\<close>

definition editQueries ::
  "env \<Rightarrow> client_page \<Rightarrow> obj \<Rightarrow> (exn + document list \<times> document list) \<times> backend" where
  "editQueries e s ec =
     (case currentUser s of
        None \<Rightarrow> (Inl TypeError, store s)
      | Some uid \<Rightarrow>
          (case ec ''email'' of
             Some (Str em) \<Rightarrow>
               (case ec ''phone'' of
                  None \<Rightarrow> (Inl InvalidArgument, store s)
                | Some ph \<Rightarrow>
                    (case getDocs e ''clients'' (emailQuery uid em) (store s) of
                       (emailRes, b1) \<Rightarrow>
                    (case getDocs e ''clients'' (phoneQuery uid ph) b1 of
                       (phoneRes, b2) \<Rightarrow> (promiseAll emailRes phoneRes, b2))))
           | _ \<Rightarrow> (Inl TypeError, store s)))"

text \<open>\<open>snapshot.docs.some(doc => doc.id !== editingClient.id)\<close>\<close>

definition otherThan :: "obj \<Rightarrow> document list \<Rightarrow> bool" where
  "otherThan ec docs = list_ex (\<lambda>d. Some (Str (fst d)) \<noteq> ec ''id'') docs"

definition editClientUpdate :: "env \<Rightarrow> obj \<Rightarrow> backend \<Rightarrow> (exn + unit) \<times> backend" where
  "editClientUpdate e ec b =
     (case ec ''id'' of
        Some (Str i) \<Rightarrow>
          (case ec ''email'' of
             Some (Str em) \<Rightarrow>
               updateDoc e ''clients'' i (ec(''email'' \<mapsto> Str (toLowerCase em))) b
           | _ \<Rightarrow> (Inl TypeError, b))
      | _ \<Rightarrow> (Inl InvalidArgument, b))"

definition editClientWrite :: "env \<Rightarrow> obj \<Rightarrow> client_page \<Rightarrow> client_page" where
  "editClientWrite e ec s =
     (case editClientUpdate e ec (store (s\<lparr>isEditLoading := True\<rparr>)) of
        (Inr u, b) \<Rightarrow>
          (fetchClients e
             ((showAlert ''Client updated successfully'' AlertSuccess (s\<lparr>store := b\<rparr>))
                \<lparr>editingClient := None\<rparr>))
            \<lparr>isEditLoading := False\<rparr>
      | (Inl err, b) \<Rightarrow>
          (showAlert ''Failed to update client. Please try again later.'' AlertError
             (s\<lparr>store := b\<rparr>))\<lparr>isEditLoading := False\<rparr>)"

definition handleEditClient :: "env \<Rightarrow> client_page \<Rightarrow> client_page" where
  "handleEditClient e s =
     (case editingClient s of
        None \<Rightarrow> s
      | Some ec \<Rightarrow>
          (case editQueries e s ec of
             (Inl err, b) \<Rightarrow>
               showAlert ''Error checking for duplicate clients.'' AlertError (s\<lparr>store := b\<rparr>)
           | (Inr (emailSnapshot, phoneSnapshot), b) \<Rightarrow>
               if otherThan ec emailSnapshot then
                 showAlert ''Another client with this email already exists.'' AlertError
                   (s\<lparr>store := b\<rparr>)
               else if otherThan ec phoneSnapshot then
                 showAlert ''Another client with this phone number already exists.'' AlertError
                   (s\<lparr>store := b\<rparr>)
               else editClientWrite e ec (s\<lparr>store := b\<rparr>)))"

definition handleDeleteClient :: "env \<Rightarrow> string \<Rightarrow> client_page \<Rightarrow> client_page" where
  "handleDeleteClient e i s =
     (if confirm e then
        (case deleteDoc e ''clients'' i (store (s\<lparr>isDeleteLoading := Some i\<rparr>)) of
           (Inr u, b) \<Rightarrow>
             (fetchClients e
                (showAlert ''Client deleted successfully'' AlertSuccess
                   (s\<lparr>store := b, isDeleteLoading := Some i\<rparr>)))
               \<lparr>isDeleteLoading := None\<rparr>
         | (Inl err, b) \<Rightarrow>
             (showAlert ''Failed to delete client. Please try again later.'' AlertError
                (s\<lparr>store := b\<rparr>))\<lparr>isDeleteLoading := None\<rparr>)
      else s)"

section \<open>The task page (Tasks.tsx)\<close>

datatype task_status = Todo | InProgress | Completed

datatype task_priority = Low | Medium | High

fun statusStr :: "task_status \<Rightarrow> string" where
  "statusStr Todo = ''todo''"
| "statusStr InProgress = ''in-progress''"
| "statusStr Completed = ''completed''"

fun priorityStr :: "task_priority \<Rightarrow> string" where
  "priorityStr Low = ''low''"
| "priorityStr Medium = ''medium''"
| "priorityStr High = ''high''"

record task_draft =
  title :: string
  description :: string
  status :: task_status
  priority :: task_priority
  dueDate :: "string option"

record task_page = page +
  tasks :: "obj list"
  isLoading :: bool
  newTask :: task_draft
  editingTask :: "obj option"

text \<open>
  The properties of the draft, as \<open>...newTask\<close> spreads them; a \<open>dueDate\<close> that is
  \<open>undefined\<close> is an absent property.
\<close>

definition draftObj :: "task_draft \<Rightarrow> obj" where
  "draftObj t =
     (\<lambda>k. if k = ''title'' then Some (Str (title t))
          else if k = ''description'' then Some (Str (description t))
          else if k = ''status'' then Some (Str (statusStr (status t)))
          else if k = ''priority'' then Some (Str (priorityStr (priority t)))
          else if k = ''dueDate'' then map_option Str (dueDate t)
          else None)"

definition fetchTasks :: "env \<Rightarrow> task_page \<Rightarrow> task_page" where
  "fetchTasks e s =
     (case currentUser s of
        None \<Rightarrow> s
      | Some uid \<Rightarrow>
          (case getDocs e ''tasks'' [(''userId'', Str uid)] (store (s\<lparr>isLoading := True\<rparr>)) of
             (Inr docs, b) \<Rightarrow> s\<lparr>store := b, tasks := map fromDoc docs, isLoading := False\<rparr>
           | (Inl err, b) \<Rightarrow> s\<lparr>store := b, isLoading := False\<rparr>))"

text \<open>What \<open>handleAddTask\<close> does after either write went through.\<close>

definition afterSubmit :: "env \<Rightarrow> task_page \<Rightarrow> task_page" where
  "afterSubmit e s =
     fetchTasks e
       (fetchTasks e
          (s\<lparr>isModalOpen := False, editingTask := None,
             newTask := \<lparr>title = [], description = [], status = Todo, priority = Medium,
                         dueDate = None\<rparr>\<rparr>))"

text \<open>
  \<open>{ ...newTask, userId: currentUser.uid, createdAt: new Date().toISOString(),
  status: 'todo' }\<close>
\<close>

definition taskData :: "string \<Rightarrow> string \<Rightarrow> task_draft \<Rightarrow> obj" where
  "taskData uid t d =
     (draftObj d)(''userId'' \<mapsto> Str uid, ''createdAt'' \<mapsto> Str t, ''status'' \<mapsto> Str ''todo'')"

definition handleAddTask :: "env \<Rightarrow> task_page \<Rightarrow> task_page" where
  "handleAddTask e s =
     (case currentUser s of
        None \<Rightarrow> s
      | Some uid \<Rightarrow>
          (case editingTask s of
             Some et \<Rightarrow>
               (case et ''id'' of
                  Some (Str i) \<Rightarrow>
                    (case updateDoc e ''tasks'' i (et(''updatedAt'' \<mapsto> Str (now e))) (store s) of
                       (Inr u, b) \<Rightarrow> afterSubmit e (s\<lparr>store := b\<rparr>)
                     | (Inl err, b) \<Rightarrow> s\<lparr>store := b\<rparr>)
                | _ \<Rightarrow> s)
           | None \<Rightarrow>
               (case addDoc e ''tasks'' (taskData uid (now e) (newTask s)) (store s) of
                  (Inr ref, b) \<Rightarrow> afterSubmit e (s\<lparr>store := b\<rparr>)
                | (Inl err, b) \<Rightarrow> s\<lparr>store := b\<rparr>)))"

definition handleUpdateTask :: "env \<Rightarrow> string \<Rightarrow> obj \<Rightarrow> task_page \<Rightarrow> task_page" where
  "handleUpdateTask e taskId updates s =
     (case updateDoc e ''tasks'' taskId updates (store s) of
        (Inr u, b) \<Rightarrow> fetchTasks e (s\<lparr>store := b\<rparr>)
      | (Inl err, b) \<Rightarrow> s\<lparr>store := b\<rparr>)"

text \<open>
  The status control of a card in \<open>TaskColumn\<close>:
  \<open>onChange = handleUpdateTask(task.id, { status: e.target.value })\<close>.
\<close>

definition TaskColumn_onChange :: "env \<Rightarrow> obj \<Rightarrow> string \<Rightarrow> task_page \<Rightarrow> task_page" where
  "TaskColumn_onChange e task v s =
     (case task ''id'' of
        Some (Str i) \<Rightarrow> handleUpdateTask e i [''status'' \<mapsto> Str v] s
      | _ \<Rightarrow> s)"

definition handleDeleteTask :: "env \<Rightarrow> string \<Rightarrow> task_page \<Rightarrow> task_page" where
  "handleDeleteTask e taskId s =
     (if \<not> confirm e then s
      else (case deleteDoc e ''tasks'' taskId (store s) of
              (Inr u, b) \<Rightarrow> fetchTasks e (s\<lparr>store := b\<rparr>)
            | (Inl err, b) \<Rightarrow> s\<lparr>store := b\<rparr>))"

definition getTasksByStatus :: "task_page \<Rightarrow> string \<Rightarrow> obj list" where
  "getTasksByStatus s st = filter (\<lambda>task. task ''status'' = Some (Str st)) (tasks s)"

section \<open>Auxiliary definitions\<close>

text \<open>The store after the two existence queries of a submit.\<close>

definition queried ::
  "env \<Rightarrow> (string \<times> jsval) list \<Rightarrow> (string \<times> jsval) list \<Rightarrow> backend \<Rightarrow> backend" where
  "queried e q1 q2 b =
     b\<lparr>calls := calls b @
        [(GetDocs ''clients'' q1, \<not> fails e (length (calls b))),
         (GetDocs ''clients'' q2, \<not> fails e (Suc (length (calls b))))]\<rparr>"

text \<open>The calls a handler added to the record of the store.\<close>

definition newCalls :: "backend \<Rightarrow> backend \<Rightarrow> (store_call \<times> bool) list" where
  "newCalls b b' = drop (length (calls b)) (calls b')"

text \<open>Every stored email is in lower case.\<close>

definition lowercaseEmails :: "document list \<Rightarrow> bool" where
  "lowercaseEmails docs =
     list_all (\<lambda>d. case snd d ''email'' of Some (Str x) \<Rightarrow> toLowerCase x = x | _ \<Rightarrow> True) docs"

section \<open>Example states\<close>

definition exampleEnv :: env where
  "exampleEnv =
     \<lparr>fails = (\<lambda>n. False), autoId = (\<lambda>n. ''c9''), now = ''2024-05-01T10:00:00.000Z'',
      confirm = True, origin = ''https://app.example.com''\<rparr>"

text \<open>The environment whose store rejects the call number \<open>k\<close>.\<close>

definition rejecting :: "nat \<Rightarrow> env" where
  "rejecting k = exampleEnv\<lparr>fails := (\<lambda>n. n = k)\<rparr>"

definition declining :: env where
  "declining = exampleEnv\<lparr>confirm := False\<rparr>"

definition clientDoc :: "string \<Rightarrow> string \<Rightarrow> string \<Rightarrow> string \<Rightarrow> string \<Rightarrow> document" where
  "clientDoc i n em ph uid =
     (i, [''name'' \<mapsto> Str n, ''email'' \<mapsto> Str em, ''phone'' \<mapsto> Str ph, ''userId'' \<mapsto> Str uid])"

definition taskDoc :: "string \<Rightarrow> string \<Rightarrow> string \<Rightarrow> string \<Rightarrow> document" where
  "taskDoc i ti st uid =
     (i, [''title'' \<mapsto> Str ti, ''description'' \<mapsto> Str ''d'', ''status'' \<mapsto> Str st,
          ''priority'' \<mapsto> Str ''low'', ''userId'' \<mapsto> Str uid,
          ''createdAt'' \<mapsto> Str ''2024-04-30T09:00:00.000Z''])"

definition exampleStore :: "document list \<Rightarrow> document list \<Rightarrow> backend" where
  "exampleStore cs ts =
     \<lparr>db = (\<lambda>c. if c = ''clients'' then cs else if c = ''tasks'' then ts else []), calls = []\<rparr>"

definition clientPage ::
  "string option \<Rightarrow> document list \<Rightarrow> client_draft \<Rightarrow> obj option \<Rightarrow> client_page" where
  "clientPage user cs draft editing =
     \<lparr>isModalOpen = True, currentUser = user, store = exampleStore cs [],
      clients = map fromDoc cs, isViewModalOpen = False, onboardingLink = [],
      selectedClient = None, newClient = draft, editingClient = editing,
      isAddLoading = False, isEditLoading = False, isDeleteLoading = None,
      isTableLoading = False, viewingClient = None, alerts = []\<rparr>"

definition taskPage ::
  "string option \<Rightarrow> document list \<Rightarrow> task_draft \<Rightarrow> obj option \<Rightarrow> task_page" where
  "taskPage user ts draft editing =
     \<lparr>isModalOpen = True, currentUser = user, store = exampleStore [] ts,
      tasks = map fromDoc ts, isLoading = False, newTask = draft, editingTask = editing\<rparr>"

definition emptyDraft :: client_draft where
  "emptyDraft = \<lparr>name = [], email = [], phone = []\<rparr>"

definition draftB :: client_draft where
  "draftB = \<lparr>name = ''B'', email = ''B@x.com'', phone = ''2''\<rparr>"

definition alice :: document where
  "alice = clientDoc ''c1'' ''A'' ''a@x.com'' ''1'' ''U''"

definition bob :: document where
  "bob = clientDoc ''c2'' ''B'' ''b@x.com'' ''2'' ''U''"

definition task1 :: document where
  "task1 = taskDoc ''t1'' ''T1'' ''in-progress'' ''U''"

definition draftT :: task_draft where
  "draftT = \<lparr>title = ''T1'', description = ''d'', status = Completed, priority = Low,
             dueDate = None\<rparr>"

definition editPage :: "obj \<Rightarrow> client_page" where
  "editPage ec = clientPage (Some ''U'') [alice, bob] emptyDraft (Some ec)"

definition aliceEdited :: obj where
  "aliceEdited = (fromDoc alice)(''selfOnboarded'' \<mapsto> Bool True, ''email'' \<mapsto> Str ''A@X.com'')"

lemmas example_defs =
  exampleEnv_def rejecting_def declining_def clientDoc_def taskDoc_def exampleStore_def
  clientPage_def taskPage_def
  emptyDraft_def draftB_def alice_def bob_def task1_def draftT_def

lemmas handler_defs =
  handleAddClient_def addClientWrite_def handleEditClient_def editQueries_def editClientWrite_def
  editClientUpdate_def handleDeleteClient_def fetchClients_def showAlert_def otherThan_def
  getDocs_def addDoc_def updateDoc_def deleteDoc_def promiseAll_def matches_def
  emailQuery_def phoneQuery_def clientData_def newCalls_def fromDoc_def updateFields_def

lemma toLowerCase_examples:
  "toLowerCase ''A@X.com'' = ''a@x.com''"
  "toLowerCase ''a@x.com'' = ''a@x.com''"
  "toLowerCase ''B@x.com'' = ''b@x.com''"
  "toLowerCase ''b@x.com'' = ''b@x.com''"
  "toLowerCase ''B@X.com'' = ''b@x.com''"
  by code_simp+

section \<open>Symbolic execution of the handlers\<close>

lemma getDocs_eq:
  "getDocs e c q b =
     (if fails e (length (calls b)) then Inl StoreError else Inr (filter (matches q) (db b c)),
      b\<lparr>calls := calls b @ [(GetDocs c q, \<not> fails e (length (calls b)))]\<rparr>)"
  by (simp add: getDocs_def)

lemma matches_emailQuery:
  "matches (emailQuery uid em) d \<longleftrightarrow>
     snd d ''userId'' = Some (Str uid) \<and> snd d ''email'' = Some (Str (toLowerCase em))"
  by (simp add: matches_def emailQuery_def)

lemma matches_phoneQuery:
  "matches (phoneQuery uid ph) d \<longleftrightarrow>
     snd d ''userId'' = Some (Str uid) \<and> snd d ''phone'' = Some ph"
  by (simp add: matches_def phoneQuery_def)

lemma fetchClients_db: "db (store (fetchClients e s)) = db (store s)"
  by (simp add: fetchClients_def getDocs_eq showAlert_def split: option.splits)

lemma fetchClients_calls:
  "calls (store (fetchClients e s)) =
     calls (store s) @
       (case currentUser s of None \<Rightarrow> []
        | Some uid \<Rightarrow>
            [(GetDocs ''clients'' [(''userId'', Str uid)], \<not> fails e (length (calls (store s))))])"
  by (simp add: fetchClients_def getDocs_eq showAlert_def split: option.splits)

lemma fetchClients_alerts:
  "alerts (fetchClients e s) =
     alerts s @
       (if currentUser s \<noteq> None \<and> fails e (length (calls (store s)))
        then [(''Failed to fetch clients'', AlertError)] else [])"
  by (simp add: fetchClients_def getDocs_eq showAlert_def split: option.splits)

lemma fetchClients_frame:
  "isModalOpen (fetchClients e s) = isModalOpen s"
  "newClient (fetchClients e s) = newClient s"
  "editingClient (fetchClients e s) = editingClient s"
  "currentUser (fetchClients e s) = currentUser s"
  by (simp_all add: fetchClients_def getDocs_eq showAlert_def split: option.splits)

lemma handleAddClient_no_user:
  assumes "currentUser s = None"
  shows "handleAddClient e s =
           showAlert ''You must be logged in to add a client.'' AlertError s"
  using assms by (simp add: handleAddClient_def)

lemma handleAddClient_query_fails:
  assumes "currentUser s = Some uid"
    and "fails e (length (calls (store s))) \<or> fails e (Suc (length (calls (store s))))"
  shows "handleAddClient e s =
     showAlert ''Error checking for duplicate clients.'' AlertError
       (s\<lparr>store := queried e (emailQuery uid (email (newClient s)))
                       (phoneQuery uid (Str (phone (newClient s)))) (store s)\<rparr>)"
proof (cases "fails e (length (calls (store s)))")
  case True
  with assms(1) show ?thesis
    by (simp add: handleAddClient_def getDocs_eq promiseAll_def queried_def split: sum.splits)
next
  case False
  with assms have "fails e (Suc (length (calls (store s))))" by simp
  with False assms(1) show ?thesis
    by (simp add: handleAddClient_def getDocs_eq promiseAll_def queried_def)
qed

lemma handleAddClient_dup_email:
  assumes "currentUser s = Some uid"
    and "\<not> fails e (length (calls (store s)))"
    and "\<not> fails e (Suc (length (calls (store s))))"
    and "filter (matches (emailQuery uid (email (newClient s)))) (db (store s) ''clients'') \<noteq> []"
  shows "handleAddClient e s =
     showAlert ''A client with this email already exists.'' AlertError
       (s\<lparr>store := queried e (emailQuery uid (email (newClient s)))
                       (phoneQuery uid (Str (phone (newClient s)))) (store s)\<rparr>)"
  using assms by (simp add: handleAddClient_def getDocs_eq promiseAll_def queried_def)

lemma handleAddClient_dup_phone:
  assumes "currentUser s = Some uid"
    and "\<not> fails e (length (calls (store s)))"
    and "\<not> fails e (Suc (length (calls (store s))))"
    and "filter (matches (emailQuery uid (email (newClient s)))) (db (store s) ''clients'') = []"
    and "filter (matches (phoneQuery uid (Str (phone (newClient s))))) (db (store s) ''clients'') \<noteq> []"
  shows "handleAddClient e s =
     showAlert ''A client with this phone number already exists.'' AlertError
       (s\<lparr>store := queried e (emailQuery uid (email (newClient s)))
                       (phoneQuery uid (Str (phone (newClient s)))) (store s)\<rparr>)"
  using assms by (simp add: handleAddClient_def getDocs_eq promiseAll_def queried_def)

lemma handleAddClient_write:
  assumes "currentUser s = Some uid"
    and "\<not> fails e (length (calls (store s)))"
    and "\<not> fails e (Suc (length (calls (store s))))"
    and "filter (matches (emailQuery uid (email (newClient s)))) (db (store s) ''clients'') = []"
    and "filter (matches (phoneQuery uid (Str (phone (newClient s))))) (db (store s) ''clients'') = []"
  shows "handleAddClient e s =
     addClientWrite e uid
       (s\<lparr>store := queried e (emailQuery uid (email (newClient s)))
                       (phoneQuery uid (Str (phone (newClient s)))) (store s)\<rparr>)"
  using assms by (simp add: handleAddClient_def getDocs_eq promiseAll_def queried_def)

lemma addClientWrite_fails:
  assumes "fails e (length (calls (store s)))"
  shows "addClientWrite e uid s =
     (showAlert ''Failed to add client. Please try again later.'' AlertError
        (s\<lparr>store := (store s)\<lparr>calls := calls (store s) @
                 [(AddDoc ''clients'' (clientData uid (newClient s)), False)]\<rparr>\<rparr>))
        \<lparr>isAddLoading := False\<rparr>"
  using assms by (simp add: addClientWrite_def addDoc_def)

lemma addClientWrite_ok:
  assumes "\<not> fails e (length (calls (store s)))"
  shows "addClientWrite e uid s =
     (fetchClients e
        ((showAlert ''Client added successfully'' AlertSuccess
          (s\<lparr>store := (store s)
               \<lparr>db := (db (store s))(''clients'' := db (store s) ''clients'' @
                         [(autoId e (length (calls (store s))), clientData uid (newClient s))]),
                calls := calls (store s) @
                         [(AddDoc ''clients'' (clientData uid (newClient s)), True)]\<rparr>\<rparr>))
           \<lparr>isModalOpen := False, newClient := \<lparr>name = [], email = [], phone = []\<rparr>\<rparr>))
        \<lparr>isAddLoading := False\<rparr>"
  using assms by (simp add: addClientWrite_def addDoc_def)

lemma queried_simps:
  "db (queried e q1 q2 b) = db b"
  "length (calls (queried e q1 q2 b)) = Suc (Suc (length (calls b)))"
  "newCalls b (queried e q1 q2 b) =
     [(GetDocs ''clients'' q1, \<not> fails e (length (calls b))),
      (GetDocs ''clients'' q2, \<not> fails e (Suc (length (calls b))))]"
  by (simp_all add: queried_def newCalls_def)

lemma handleAddClient_rejects:
  assumes "currentUser s = Some uid"
    and "\<not> fails e (length (calls (store s)))"
    and "\<not> fails e (Suc (length (calls (store s))))"
    and "d \<in> set (db (store s) ''clients'')" and "snd d ''userId'' = Some (Str uid)"
    and "snd d ''email'' = Some (Str (toLowerCase (email (newClient s)))) \<or>
         snd d ''phone'' = Some (Str (phone (newClient s)))"
  shows "(alerts (handleAddClient e s) =
            alerts s @ [(''A client with this email already exists.'', AlertError)] \<or>
          alerts (handleAddClient e s) =
            alerts s @ [(''A client with this phone number already exists.'', AlertError)]) \<and>
         db (store (handleAddClient e s)) = db (store s) \<and>
         newCalls (store s) (store (handleAddClient e s)) =
           [(GetDocs ''clients'' (emailQuery uid (email (newClient s))), True),
            (GetDocs ''clients'' (phoneQuery uid (Str (phone (newClient s)))), True)]"
proof (cases "filter (matches (emailQuery uid (email (newClient s)))) (db (store s) ''clients'') = []")
  case False
  show ?thesis
    using assms(2,3)
    by (simp add: handleAddClient_dup_email [OF assms(1-3) False] showAlert_def queried_simps)
next
  case True
  with assms(4,5) have "snd d ''email'' \<noteq> Some (Str (toLowerCase (email (newClient s))))"
    by (auto simp: filter_empty_conv matches_emailQuery)
  with assms(6) have "snd d ''phone'' = Some (Str (phone (newClient s)))" by simp
  with assms(4,5)
  have ph: "filter (matches (phoneQuery uid (Str (phone (newClient s))))) (db (store s) ''clients'') \<noteq> []"
    by (auto simp: filter_empty_conv matches_phoneQuery)
  show ?thesis
    using assms(2,3)
    by (simp add: handleAddClient_dup_phone [OF assms(1-3) True ph] showAlert_def queried_simps)
qed

lemma handleAddClient_writes:
  assumes "currentUser s = Some uid"
    and "\<not> fails e (length (calls (store s)))"
    and "\<not> fails e (Suc (length (calls (store s))))"
    and "\<not> fails e (Suc (Suc (length (calls (store s)))))"
    and "\<forall>d\<in>set (db (store s) ''clients''). snd d ''userId'' = Some (Str uid) \<longrightarrow>
           snd d ''email'' \<noteq> Some (Str (toLowerCase (email (newClient s)))) \<and>
           snd d ''phone'' \<noteq> Some (Str (phone (newClient s)))"
  shows "db (store (handleAddClient e s)) ''clients'' =
           db (store s) ''clients'' @
             [(autoId e (Suc (Suc (length (calls (store s))))), clientData uid (newClient s))]"
proof -
  have em: "filter (matches (emailQuery uid (email (newClient s)))) (db (store s) ''clients'') = []"
    using assms(5) by (auto simp: filter_empty_conv matches_emailQuery)
  have ph: "filter (matches (phoneQuery uid (Str (phone (newClient s))))) (db (store s) ''clients'') = []"
    using assms(5) by (auto simp: filter_empty_conv matches_phoneQuery)
  show ?thesis
    using assms(4)
    by (simp add: handleAddClient_write [OF assms(1-3) em ph] addClientWrite_ok queried_simps
        fetchClients_db showAlert_def)
qed

lemma clientData_fields:
  "clientData uid d ''email'' = Some (Str (toLowerCase (email d)))"
  "clientData uid d ''userId'' = Some (Str uid)"
  "clientData uid d ''name'' = Some (Str (name d))"
  "clientData uid d ''phone'' = Some (Str (phone d))"
  by (simp_all add: clientData_def)

lemma store_update_same: "(s::client_page)\<lparr>store := store s\<rparr> = s"
  by simp

lemma handleAddClient_cases:
  obtains (aborted) m q where
      "handleAddClient e s = showAlert m AlertError (s\<lparr>store := q\<rparr>)"
      "db q = db (store s)"
      "\<forall>c\<in>set (newCalls (store s) q). \<exists>col cond ok. c = (GetDocs col cond, ok)"
  | (reaches) uid q where
      "currentUser s = Some uid"
      "handleAddClient e s = addClientWrite e uid (s\<lparr>store := q\<rparr>)"
      "db q = db (store s)"
      "\<exists>new. calls q = calls (store s) @ new \<and>
             (\<forall>c\<in>set new. \<exists>col cond ok. c = (GetDocs col cond, ok))"
proof (cases "currentUser s")
  case None
  show ?thesis
  proof (rule aborted)
    show "handleAddClient e s =
            showAlert ''You must be logged in to add a client.'' AlertError (s\<lparr>store := store s\<rparr>)"
      using None by (simp add: handleAddClient_no_user)
  qed (simp_all add: newCalls_def)
next
  case (Some uid)
  let ?q1 = "emailQuery uid (email (newClient s))"
  let ?q2 = "phoneQuery uid (Str (phone (newClient s)))"
  let ?q = "queried e ?q1 ?q2 (store s)"
  have nc: "\<forall>c\<in>set (newCalls (store s) ?q). \<exists>col cond ok. c = (GetDocs col cond, ok)"
    by (simp add: queried_simps)
  have dq: "db ?q = db (store s)" by (simp add: queried_simps)
  consider (qf) "fails e (length (calls (store s))) \<or> fails e (Suc (length (calls (store s))))"
    | (de) "\<not> fails e (length (calls (store s)))" "\<not> fails e (Suc (length (calls (store s))))"
           "filter (matches ?q1) (db (store s) ''clients'') \<noteq> []"
    | (dp) "\<not> fails e (length (calls (store s)))" "\<not> fails e (Suc (length (calls (store s))))"
           "filter (matches ?q1) (db (store s) ''clients'') = []"
           "filter (matches ?q2) (db (store s) ''clients'') \<noteq> []"
    | (wr) "\<not> fails e (length (calls (store s)))" "\<not> fails e (Suc (length (calls (store s))))"
           "filter (matches ?q1) (db (store s) ''clients'') = []"
           "filter (matches ?q2) (db (store s) ''clients'') = []"
    by blast
  then show ?thesis
  proof cases
    case qf
    show ?thesis
      by (rule aborted [OF handleAddClient_query_fails [OF Some qf] dq nc])
  next
    case de
    show ?thesis
      by (rule aborted [OF handleAddClient_dup_email [OF Some de] dq nc])
  next
    case dp
    show ?thesis
      by (rule aborted [OF handleAddClient_dup_phone [OF Some dp] dq nc])
  next
    case wr
    show ?thesis
    proof (rule reaches [OF Some handleAddClient_write [OF Some wr] dq])
      show "\<exists>new. calls ?q = calls (store s) @ new \<and>
             (\<forall>c\<in>set new. \<exists>col cond ok. c = (GetDocs col cond, ok))"
        by (simp add: queried_def)
    qed
  qed
qed

lemma newCalls_append: "calls b' = calls b @ new \<Longrightarrow> newCalls b b' = new"
  by (simp add: newCalls_def)

lemma handleAddClient_failed_write:
  assumes "(AddDoc c data, False) \<in> set (newCalls (store s) (store (handleAddClient e s)))"
  shows "alerts (handleAddClient e s) =
           alerts s @ [(''Failed to add client. Please try again later.'', AlertError)] \<and>
         clients (handleAddClient e s) = clients s \<and>
         isModalOpen (handleAddClient e s) = isModalOpen s \<and>
         newClient (handleAddClient e s) = newClient s \<and>
         editingClient (handleAddClient e s) = editingClient s \<and>
         db (store (handleAddClient e s)) = db (store s)"
proof (cases rule: handleAddClient_cases [of e s])
  case (aborted m q)
  with assms show ?thesis by (auto simp: showAlert_def)
next
  case (reaches uid q)
  then obtain new where new: "calls q = calls (store s) @ new"
    "\<forall>c\<in>set new. \<exists>col cond ok. c = (GetDocs col cond, ok)" by blast
  show ?thesis
  proof (cases "fails e (length (calls q))")
    case True
    then show ?thesis using reaches(3)
      by (simp add: reaches(2) addClientWrite_fails showAlert_def)
  next
    case False
    have "calls (store (handleAddClient e s)) =
            calls (store s) @ new @
              [(AddDoc ''clients'' (clientData uid (newClient s)), True),
               (GetDocs ''clients'' [(''userId'', Str uid)], \<not> fails e (Suc (length (calls q))))]"
      using False reaches(1) new(1)
      by (simp add: reaches(2) addClientWrite_ok fetchClients_calls showAlert_def)
    then have "newCalls (store s) (store (handleAddClient e s)) = new @
              [(AddDoc ''clients'' (clientData uid (newClient s)), True),
               (GetDocs ''clients'' [(''userId'', Str uid)], \<not> fails e (Suc (length (calls q))))]"
      by (rule newCalls_append)
    with assms new(2) show ?thesis by auto
  qed
qed

lemma handleAddClient_reset_needs_write:
  assumes "isModalOpen (handleAddClient e s) \<noteq> isModalOpen s \<or>
           newClient (handleAddClient e s) \<noteq> newClient s"
  shows "\<exists>data. (AddDoc ''clients'' data, True) \<in>
           set (newCalls (store s) (store (handleAddClient e s)))"
proof (cases rule: handleAddClient_cases [of e s])
  case (aborted m q)
  with assms show ?thesis by (auto simp: showAlert_def)
next
  case (reaches uid q)
  then obtain new where new: "calls q = calls (store s) @ new" by blast
  show ?thesis
  proof (cases "fails e (length (calls q))")
    case True
    with assms show ?thesis
      by (simp add: reaches(2) addClientWrite_fails showAlert_def)
  next
    case False
    have "calls (store (handleAddClient e s)) =
            calls (store s) @ new @
              [(AddDoc ''clients'' (clientData uid (newClient s)), True),
               (GetDocs ''clients'' [(''userId'', Str uid)], \<not> fails e (Suc (length (calls q))))]"
      using False reaches(1) new(1)
      by (simp add: reaches(2) addClientWrite_ok fetchClients_calls showAlert_def)
    then have "newCalls (store s) (store (handleAddClient e s)) = new @
              [(AddDoc ''clients'' (clientData uid (newClient s)), True),
               (GetDocs ''clients'' [(''userId'', Str uid)], \<not> fails e (Suc (length (calls q))))]"
      by (rule newCalls_append)
    then show ?thesis by auto
  qed
qed

lemma updateDoc_eq:
  "updateDoc e c i data b =
     (if fails e (length (calls b)) \<or> i \<notin> fst ` set (db b c) then Inl StoreError else Inr (),
      b\<lparr>db := (if fails e (length (calls b)) \<or> i \<notin> fst ` set (db b c) then db b
                else (db b)(c := map (updateFields i data) (db b c))),
        calls := calls b @
          [(UpdateDoc c i data, \<not> fails e (length (calls b)) \<and> i \<in> fst ` set (db b c))]\<rparr>)"
  by (simp add: updateDoc_def)

lemma editQueries_throws:
  assumes "currentUser s = None \<or> (\<forall>em. ec ''email'' \<noteq> Some (Str em)) \<or> ec ''phone'' = None"
  shows "\<exists>x. editQueries e s ec = (Inl x, store s)"
  using assms by (auto simp: editQueries_def split: option.splits jsval.splits)

lemma editQueries_issued:
  assumes "currentUser s = Some uid" and "ec ''email'' = Some (Str em)" and "ec ''phone'' = Some ph"
  shows "editQueries e s ec =
     (promiseAll
        (if fails e (length (calls (store s))) then Inl StoreError
         else Inr (filter (matches (emailQuery uid em)) (db (store s) ''clients'')))
        (if fails e (Suc (length (calls (store s)))) then Inl StoreError
         else Inr (filter (matches (phoneQuery uid ph)) (db (store s) ''clients''))),
      queried e (emailQuery uid em) (phoneQuery uid ph) (store s))"
  using assms by (simp add: editQueries_def getDocs_eq queried_def)

lemma handleEditClient_throws:
  assumes "editingClient s = Some ec"
    and "currentUser s = None \<or> (\<forall>em. ec ''email'' \<noteq> Some (Str em)) \<or> ec ''phone'' = None"
  shows "handleEditClient e s =
           showAlert ''Error checking for duplicate clients.'' AlertError s"
proof -
  obtain x where "editQueries e s ec = (Inl x, store s)"
    using editQueries_throws [OF assms(2)] by blast
  with assms(1) show ?thesis by (simp add: handleEditClient_def)
qed

lemma handleEditClient_query_fails:
  assumes "editingClient s = Some ec"
    and "currentUser s = Some uid" and "ec ''email'' = Some (Str em)" and "ec ''phone'' = Some ph"
    and "fails e (length (calls (store s))) \<or> fails e (Suc (length (calls (store s))))"
  shows "handleEditClient e s =
     showAlert ''Error checking for duplicate clients.'' AlertError
       (s\<lparr>store := queried e (emailQuery uid em) (phoneQuery uid ph) (store s)\<rparr>)"
proof (cases "fails e (length (calls (store s)))")
  case True
  with assms(1) show ?thesis
    by (simp add: handleEditClient_def editQueries_issued [OF assms(2-4)] promiseAll_def)
next
  case False
  with assms(5) have "fails e (Suc (length (calls (store s))))" by simp
  with False assms(1) show ?thesis
    by (simp add: handleEditClient_def editQueries_issued [OF assms(2-4)] promiseAll_def)
qed

lemma handleEditClient_checked:
  assumes "editingClient s = Some ec"
    and "currentUser s = Some uid" and "ec ''email'' = Some (Str em)" and "ec ''phone'' = Some ph"
    and "\<not> fails e (length (calls (store s)))"
    and "\<not> fails e (Suc (length (calls (store s))))"
  shows "otherThan ec (filter (matches (emailQuery uid em)) (db (store s) ''clients'')) \<Longrightarrow>
         handleEditClient e s =
           showAlert ''Another client with this email already exists.'' AlertError
             (s\<lparr>store := queried e (emailQuery uid em) (phoneQuery uid ph) (store s)\<rparr>)"
    and "\<not> otherThan ec (filter (matches (emailQuery uid em)) (db (store s) ''clients'')) \<Longrightarrow>
         otherThan ec (filter (matches (phoneQuery uid ph)) (db (store s) ''clients'')) \<Longrightarrow>
         handleEditClient e s =
           showAlert ''Another client with this phone number already exists.'' AlertError
             (s\<lparr>store := queried e (emailQuery uid em) (phoneQuery uid ph) (store s)\<rparr>)"
    and "\<not> otherThan ec (filter (matches (emailQuery uid em)) (db (store s) ''clients'')) \<Longrightarrow>
         \<not> otherThan ec (filter (matches (phoneQuery uid ph)) (db (store s) ''clients'')) \<Longrightarrow>
         handleEditClient e s =
           editClientWrite e ec
             (s\<lparr>store := queried e (emailQuery uid em) (phoneQuery uid ph) (store s)\<rparr>)"
  using assms(1,5,6)
  by (simp_all add: handleEditClient_def editQueries_issued [OF assms(2-4)] promiseAll_def)

lemma editClientUpdate_no_call:
  assumes "(\<forall>i. ec ''id'' \<noteq> Some (Str i)) \<or> (\<forall>em. ec ''email'' \<noteq> Some (Str em))"
  shows "\<exists>x. editClientUpdate e ec b = (Inl x, b)"
  using assms by (auto simp: editClientUpdate_def split: option.splits jsval.splits)

lemma editClientUpdate_call:
  assumes "ec ''id'' = Some (Str i)" and "ec ''email'' = Some (Str em)"
  shows "editClientUpdate e ec b =
           updateDoc e ''clients'' i (ec(''email'' \<mapsto> Str (toLowerCase em))) b"
  using assms by (simp add: editClientUpdate_def)

lemma editClientWrite_Inl:
  assumes "editClientUpdate e ec (store s) = (Inl x, b)"
  shows "editClientWrite e ec s =
     (showAlert ''Failed to update client. Please try again later.'' AlertError
        (s\<lparr>store := b\<rparr>))\<lparr>isEditLoading := False\<rparr>"
  using assms by (simp add: editClientWrite_def)

lemma editClientWrite_Inr:
  assumes "editClientUpdate e ec (store s) = (Inr u, b)"
  shows "editClientWrite e ec s =
     (fetchClients e
        ((showAlert ''Client updated successfully'' AlertSuccess (s\<lparr>store := b\<rparr>))
           \<lparr>editingClient := None\<rparr>))\<lparr>isEditLoading := False\<rparr>"
  using assms by (simp add: editClientWrite_def)

lemma otherThan_iff: "otherThan ec docs \<longleftrightarrow> (\<exists>d\<in>set docs. Some (Str (fst d)) \<noteq> ec ''id'')"
  by (simp add: otherThan_def list_ex_iff)

lemma handleEditClient_cases:
  obtains (idle) "editingClient s = None" "handleEditClient e s = s"
  | (aborted) m q where
      "handleEditClient e s = showAlert m AlertError (s\<lparr>store := q\<rparr>)"
      "db q = db (store s)"
      "\<forall>c\<in>set (newCalls (store s) q). \<exists>col cond ok. c = (GetDocs col cond, ok)"
  | (reaches) ec q where
      "editingClient s = Some ec"
      "handleEditClient e s = editClientWrite e ec (s\<lparr>store := q\<rparr>)"
      "db q = db (store s)"
      "\<exists>new. calls q = calls (store s) @ new \<and>
             (\<forall>c\<in>set new. \<exists>col cond ok. c = (GetDocs col cond, ok))"
proof (cases "editingClient s")
  case None
  then show ?thesis by (intro idle) (simp_all add: handleEditClient_def)
next
  case (Some ec)
  show ?thesis
  proof (cases "currentUser s = None \<or> (\<forall>em. ec ''email'' \<noteq> Some (Str em)) \<or> ec ''phone'' = None")
    case True
    show ?thesis
    proof (rule aborted)
      show "handleEditClient e s =
              showAlert ''Error checking for duplicate clients.'' AlertError (s\<lparr>store := store s\<rparr>)"
        by (simp add: handleEditClient_throws [OF Some True])
    qed (simp_all add: newCalls_def)
  next
    case False
    then obtain uid em ph where b: "currentUser s = Some uid" "ec ''email'' = Some (Str em)"
      "ec ''phone'' = Some ph" by auto
    let ?q1 = "emailQuery uid em"
    let ?q2 = "phoneQuery uid ph"
    let ?q = "queried e ?q1 ?q2 (store s)"
    have nc: "\<forall>c\<in>set (newCalls (store s) ?q). \<exists>col cond ok. c = (GetDocs col cond, ok)"
      by (simp add: queried_simps)
    have dq: "db ?q = db (store s)" by (simp add: queried_simps)
    consider (qf) "fails e (length (calls (store s))) \<or> fails e (Suc (length (calls (store s))))"
      | (de) "\<not> fails e (length (calls (store s)))" "\<not> fails e (Suc (length (calls (store s))))"
             "otherThan ec (filter (matches ?q1) (db (store s) ''clients''))"
      | (dp) "\<not> fails e (length (calls (store s)))" "\<not> fails e (Suc (length (calls (store s))))"
             "\<not> otherThan ec (filter (matches ?q1) (db (store s) ''clients''))"
             "otherThan ec (filter (matches ?q2) (db (store s) ''clients''))"
      | (wr) "\<not> fails e (length (calls (store s)))" "\<not> fails e (Suc (length (calls (store s))))"
             "\<not> otherThan ec (filter (matches ?q1) (db (store s) ''clients''))"
             "\<not> otherThan ec (filter (matches ?q2) (db (store s) ''clients''))"
      by blast
    then show ?thesis
    proof cases
      case qf
      show ?thesis
        by (rule aborted [OF handleEditClient_query_fails [OF Some b qf] dq nc])
    next
      case de
      show ?thesis
        by (rule aborted [OF handleEditClient_checked(1) [OF Some b de] dq nc])
    next
      case dp
      show ?thesis
        by (rule aborted [OF handleEditClient_checked(2) [OF Some b dp] dq nc])
    next
      case wr
      show ?thesis
      proof (rule reaches [OF Some handleEditClient_checked(3) [OF Some b wr] dq])
        show "\<exists>new. calls ?q = calls (store s) @ new \<and>
               (\<forall>c\<in>set new. \<exists>col cond ok. c = (GetDocs col cond, ok))"
          by (simp add: queried_def)
      qed
    qed
  qed
qed

lemma editClientUpdate_cases:
  obtains (nocall) x where "editClientUpdate e ec b = (Inl x, b)"
  | (failed) i em where "ec ''id'' = Some (Str i)" "ec ''email'' = Some (Str em)"
      "editClientUpdate e ec b =
         (Inl StoreError,
          b\<lparr>calls := calls b @
              [(UpdateDoc ''clients'' i (ec(''email'' \<mapsto> Str (toLowerCase em))), False)]\<rparr>)"
  | (written) i em where "ec ''id'' = Some (Str i)" "ec ''email'' = Some (Str em)"
      "editClientUpdate e ec b =
         (Inr (),
          b\<lparr>db := (db b)(''clients'' :=
                 map (updateFields i (ec(''email'' \<mapsto> Str (toLowerCase em)))) (db b ''clients'')),
            calls := calls b @
              [(UpdateDoc ''clients'' i (ec(''email'' \<mapsto> Str (toLowerCase em))), True)]\<rparr>)"
proof (cases "(\<forall>i. ec ''id'' \<noteq> Some (Str i)) \<or> (\<forall>em. ec ''email'' \<noteq> Some (Str em))")
  case True
  then show ?thesis using editClientUpdate_no_call [of ec e b] nocall by blast
next
  case False
  then obtain i em where b: "ec ''id'' = Some (Str i)" "ec ''email'' = Some (Str em)" by auto
  show ?thesis
  proof (cases "fails e (length (calls b)) \<or> i \<notin> fst ` set (db b ''clients'')")
    case True
    then show ?thesis
      by (intro failed [OF b]) (simp add: editClientUpdate_call [OF b] updateDoc_eq)
  next
    case False
    then show ?thesis
      by (intro written [OF b]) (simp add: editClientUpdate_call [OF b] updateDoc_eq)
  qed
qed

lemma handleEditClient_failed_write:
  assumes "(UpdateDoc c i data, False) \<in> set (newCalls (store s) (store (handleEditClient e s)))"
  shows "alerts (handleEditClient e s) =
           alerts s @ [(''Failed to update client. Please try again later.'', AlertError)] \<and>
         clients (handleEditClient e s) = clients s \<and>
         isModalOpen (handleEditClient e s) = isModalOpen s \<and>
         newClient (handleEditClient e s) = newClient s \<and>
         editingClient (handleEditClient e s) = editingClient s \<and>
         db (store (handleEditClient e s)) = db (store s)"
proof (cases rule: handleEditClient_cases [of s e])
  case idle
  with assms show ?thesis by (simp add: newCalls_def)
next
  case (aborted m q)
  with assms show ?thesis by (auto simp: showAlert_def)
next
  case (reaches ec q)
  then obtain new where new: "calls q = calls (store s) @ new"
    "\<forall>c\<in>set new. \<exists>col cond ok. c = (GetDocs col cond, ok)" by blast
  show ?thesis
  proof (cases rule: editClientUpdate_cases [of e ec q])
    case (nocall x)
    have "newCalls (store s) (store (handleEditClient e s)) = new"
      by (rule newCalls_append)
         (simp add: reaches(2) editClientWrite_Inl [where b = q and x = x] nocall showAlert_def new(1))
    with assms new(2) show ?thesis by auto
  next
    case (failed j em)
    then show ?thesis using reaches(3)
      by (simp add: reaches(2) editClientWrite_Inl [where x = StoreError] showAlert_def)
  next
    case (written j em)
    have "calls (store (handleEditClient e s)) =
            calls (store s) @ new @
              (UpdateDoc ''clients'' j (ec(''email'' \<mapsto> Str (toLowerCase em))), True) #
              (case currentUser s of None \<Rightarrow> []
               | Some uid \<Rightarrow> [(GetDocs ''clients'' [(''userId'', Str uid)],
                               \<not> fails e (Suc (length (calls q))))])"
      using new(1)
      by (simp add: reaches(2) editClientWrite_Inr [where u = "()"] written fetchClients_calls
          showAlert_def split: option.splits)
    then have "newCalls (store s) (store (handleEditClient e s)) = new @
              (UpdateDoc ''clients'' j (ec(''email'' \<mapsto> Str (toLowerCase em))), True) #
              (case currentUser s of None \<Rightarrow> []
               | Some uid \<Rightarrow> [(GetDocs ''clients'' [(''userId'', Str uid)],
                               \<not> fails e (Suc (length (calls q))))])"
      by (rule newCalls_append)
    with assms new(2) show ?thesis by (auto split: option.splits)
  qed
qed

lemma handleEditClient_reset_needs_write:
  assumes "editingClient (handleEditClient e s) \<noteq> editingClient s"
  shows "\<exists>i data. (UpdateDoc ''clients'' i data, True) \<in>
           set (newCalls (store s) (store (handleEditClient e s)))"
proof (cases rule: handleEditClient_cases [of s e])
  case idle
  with assms show ?thesis by simp
next
  case (aborted m q)
  with assms show ?thesis by (auto simp: showAlert_def)
next
  case (reaches ec q)
  then obtain new where new: "calls q = calls (store s) @ new" by blast
  show ?thesis
  proof (cases rule: editClientUpdate_cases [of e ec q])
    case (nocall x)
    with assms show ?thesis
      by (simp add: reaches(2) editClientWrite_Inl [where b = q and x = x] showAlert_def)
  next
    case (failed j em)
    with assms show ?thesis
      by (simp add: reaches(2) editClientWrite_Inl [where x = StoreError] showAlert_def)
  next
    case (written j em)
    have "calls (store (handleEditClient e s)) =
            calls (store s) @ new @
              (UpdateDoc ''clients'' j (ec(''email'' \<mapsto> Str (toLowerCase em))), True) #
              (case currentUser s of None \<Rightarrow> []
               | Some uid \<Rightarrow> [(GetDocs ''clients'' [(''userId'', Str uid)],
                               \<not> fails e (Suc (length (calls q))))])"
      using new(1)
      by (simp add: reaches(2) editClientWrite_Inr [where u = "()"] written fetchClients_calls
          showAlert_def split: option.splits)
    then have "newCalls (store s) (store (handleEditClient e s)) = new @
              (UpdateDoc ''clients'' j (ec(''email'' \<mapsto> Str (toLowerCase em))), True) #
              (case currentUser s of None \<Rightarrow> []
               | Some uid \<Rightarrow> [(GetDocs ''clients'' [(''userId'', Str uid)],
                               \<not> fails e (Suc (length (calls q))))])"
      by (rule newCalls_append)
    then show ?thesis by auto
  qed
qed

lemma fetchTasks_db: "db (store (fetchTasks e s)) = db (store s)"
  by (simp add: fetchTasks_def getDocs_eq split: option.splits)

lemma fetchTasks_calls:
  "calls (store (fetchTasks e s)) =
     calls (store s) @
       (case currentUser s of None \<Rightarrow> []
        | Some uid \<Rightarrow>
            [(GetDocs ''tasks'' [(''userId'', Str uid)], \<not> fails e (length (calls (store s))))])"
  by (simp add: fetchTasks_def getDocs_eq split: option.splits)

lemma fetchTasks_user: "currentUser (fetchTasks e s) = currentUser s"
  by (simp add: fetchTasks_def getDocs_eq split: option.splits)

lemma afterSubmit_db: "db (store (afterSubmit e s)) = db (store s)"
  by (simp add: afterSubmit_def fetchTasks_db)

lemma afterSubmit_calls:
  "\<exists>new. calls (store (afterSubmit e s)) = calls (store s) @ new \<and>
         (\<forall>c\<in>set new. \<exists>col cond ok. c = (GetDocs col cond, ok))"
  by (auto simp: afterSubmit_def fetchTasks_calls fetchTasks_user split: option.splits)

lemma updated_document:
  assumes "d \<in> set (map (updateFields i data) docs)" and "fst d = i" and "k \<in> dom data"
  shows "snd d k = data k"
proof -
  from assms(1) obtain d0 where d0: "d = updateFields i data d0" by auto
  with assms(2) have "fst d0 = i" by (simp add: updateFields_def split: if_splits)
  with d0 assms(3) show ?thesis
    by (auto simp: updateFields_def map_add_def split: option.splits)
qed

lemma handleEditClient_update_call:
  assumes "editingClient s = Some ec"
    and "(UpdateDoc c i data, ok) \<in> set (newCalls (store s) (store (handleEditClient e s)))"
  shows "c = ''clients'' \<and> ec ''id'' = Some (Str i) \<and>
         (\<exists>em. ec ''email'' = Some (Str em) \<and> data = ec(''email'' \<mapsto> Str (toLowerCase em))) \<and>
         (ok \<longrightarrow> db (store (handleEditClient e s)) ''clients'' =
                  map (updateFields i data) (db (store s) ''clients''))"
proof (cases rule: handleEditClient_cases [of s e])
  case idle
  with assms show ?thesis by simp
next
  case (aborted m q)
  with assms show ?thesis by (auto simp: showAlert_def)
next
  case (reaches ec' q)
  with assms(1) have ec: "ec' = ec" by simp
  from reaches obtain new where new: "calls q = calls (store s) @ new"
    "\<forall>c\<in>set new. \<exists>col cond ok. c = (GetDocs col cond, ok)" by blast
  show ?thesis
  proof (cases rule: editClientUpdate_cases [of e ec q])
    case (nocall x)
    have "newCalls (store s) (store (handleEditClient e s)) = new"
      by (rule newCalls_append)
         (simp add: reaches(2) ec editClientWrite_Inl [where b = q and x = x] nocall showAlert_def new(1))
    with assms new(2) show ?thesis by auto
  next
    case (failed j em)
    have "newCalls (store s) (store (handleEditClient e s)) =
            new @ [(UpdateDoc ''clients'' j (ec(''email'' \<mapsto> Str (toLowerCase em))), False)]"
      by (rule newCalls_append)
         (simp add: reaches(2) ec editClientWrite_Inl [where x = StoreError] failed showAlert_def new(1))
    with assms(2) new(2) failed(1,2) show ?thesis by auto
  next
    case (written j em)
    have "calls (store (handleEditClient e s)) =
            calls (store s) @ new @
              (UpdateDoc ''clients'' j (ec(''email'' \<mapsto> Str (toLowerCase em))), True) #
              (case currentUser s of None \<Rightarrow> []
               | Some uid \<Rightarrow> [(GetDocs ''clients'' [(''userId'', Str uid)],
                               \<not> fails e (Suc (length (calls q))))])"
      using new(1)
      by (simp add: reaches(2) ec editClientWrite_Inr [where u = "()"] written fetchClients_calls
          showAlert_def split: option.splits)
    then have nc: "newCalls (store s) (store (handleEditClient e s)) = new @
              (UpdateDoc ''clients'' j (ec(''email'' \<mapsto> Str (toLowerCase em))), True) #
              (case currentUser s of None \<Rightarrow> []
               | Some uid \<Rightarrow> [(GetDocs ''clients'' [(''userId'', Str uid)],
                               \<not> fails e (Suc (length (calls q))))])"
      by (rule newCalls_append)
    have dbs: "db (store (handleEditClient e s)) ''clients'' =
            map (updateFields j (ec(''email'' \<mapsto> Str (toLowerCase em)))) (db (store s) ''clients'')"
      using reaches(3)
      by (simp add: reaches(2) ec editClientWrite_Inr [where u = "()"] written fetchClients_db
          showAlert_def)
    from assms(2) new(2) nc
    have "c = ''clients'' \<and> i = j \<and> data = ec(''email'' \<mapsto> Str (toLowerCase em))"
      by (auto split: option.splits)
    with written(1,2) dbs show ?thesis by simp
  qed
qed

lemma handleAddTask_update_call:
  assumes "editingTask t = Some et"
    and "(UpdateDoc c i data, ok) \<in> set (newCalls (store t) (store (handleAddTask e t)))"
  shows "c = ''tasks'' \<and> et ''id'' = Some (Str i) \<and> data = et(''updatedAt'' \<mapsto> Str (now e)) \<and>
         (ok \<longrightarrow> db (store (handleAddTask e t)) ''tasks'' =
                  map (updateFields i data) (db (store t) ''tasks''))"
proof (cases "currentUser t")
  case None
  with assms show ?thesis by (simp add: handleAddTask_def newCalls_def)
next
  case (Some uid)
  show ?thesis
  proof (cases "\<exists>j. et ''id'' = Some (Str j)")
    case False
    then have "handleAddTask e t = t"
      using Some assms(1) by (auto simp: handleAddTask_def split: option.splits jsval.splits)
    with assms show ?thesis by (simp add: newCalls_def)
  next
    case True
    then obtain j where j: "et ''id'' = Some (Str j)" by blast
    let ?data = "et(''updatedAt'' \<mapsto> Str (now e))"
    show ?thesis
    proof (cases "fails e (length (calls (store t))) \<or> j \<notin> fst ` set (db (store t) ''tasks'')")
      case True
      then have "handleAddTask e t =
          t\<lparr>store := (store t)\<lparr>calls := calls (store t) @ [(UpdateDoc ''tasks'' j ?data, False)]\<rparr>\<rparr>"
        using Some assms(1) j by (simp add: handleAddTask_def updateDoc_eq)
      with assms(2) j show ?thesis by (auto simp: newCalls_def)
    next
      case False
      let ?b = "(store t)\<lparr>db := (db (store t))(''tasks'' := map (updateFields j ?data) (db (store t) ''tasks'')),
                 calls := calls (store t) @ [(UpdateDoc ''tasks'' j ?data, True)]\<rparr>"
      from False have h: "handleAddTask e t = afterSubmit e (t\<lparr>store := ?b\<rparr>)"
        using Some assms(1) j by (simp add: handleAddTask_def updateDoc_eq)
      obtain new where new: "calls (store (handleAddTask e t)) =
          (calls (store t) @ [(UpdateDoc ''tasks'' j ?data, True)]) @ new"
        "\<forall>c\<in>set new. \<exists>col cond ok. c = (GetDocs col cond, ok)"
        using afterSubmit_calls [of e "t\<lparr>store := ?b\<rparr>"] by (auto simp: h)
      then have "newCalls (store t) (store (handleAddTask e t)) =
          (UpdateDoc ''tasks'' j ?data, True) # new"
        by (simp add: newCalls_def)
      with assms(2) new(2) have "c = ''tasks'' \<and> i = j \<and> data = ?data" by auto
      moreover have "db (store (handleAddTask e t)) ''tasks'' =
          map (updateFields j ?data) (db (store t) ''tasks'')"
        by (simp add: h afterSubmit_db)
      ultimately show ?thesis using j by simp
    qed
  qed
qed

lemma spread_client_buffer:
  assumes "editingClient s = Some ec"
    and "(UpdateDoc c i data, ok) \<in> set (newCalls (store s) (store (handleEditClient e s)))"
  shows "c = ''clients'' \<and> ec ''id'' = Some (Str i) \<and> data ''id'' = Some (Str i) \<and>
      (\<exists>em. ec ''email'' = Some (Str em) \<and> data = ec(''email'' \<mapsto> Str (toLowerCase em))) \<and>
      (\<forall>k. k \<noteq> ''email'' \<longrightarrow> data k = ec k) \<and>
      (ok \<longrightarrow> (\<forall>d\<in>set (db (store (handleEditClient e s)) ''clients'').
                 fst d = i \<longrightarrow> (\<forall>k\<in>dom data. snd d k = data k)))"
proof -
  note r = handleEditClient_update_call [OF assms]
  then obtain em where em: "ec ''email'' = Some (Str em)"
    "data = ec(''email'' \<mapsto> Str (toLowerCase em))" by blast
  have stored: "\<forall>d\<in>set (db (store (handleEditClient e s)) ''clients'').
                 fst d = i \<longrightarrow> (\<forall>k\<in>dom data. snd d k = data k)" if ok
    using r that updated_document [of _ i data "db (store s) ''clients''"] by simp
  have "data ''id'' = Some (Str i)" using r em by simp
  moreover have "\<forall>k. k \<noteq> ''email'' \<longrightarrow> data k = ec k" using em by simp
  ultimately show ?thesis using r em stored by blast
qed

lemma spread_task_buffer:
  assumes "editingTask t = Some et"
    and "(UpdateDoc c i data, ok) \<in> set (newCalls (store t) (store (handleAddTask e t)))"
  shows "c = ''tasks'' \<and> et ''id'' = Some (Str i) \<and> data ''id'' = Some (Str i) \<and>
      data = et(''updatedAt'' \<mapsto> Str (now e)) \<and>
      (\<forall>k. k \<noteq> ''updatedAt'' \<longrightarrow> data k = et k) \<and>
      (ok \<longrightarrow> (\<forall>d\<in>set (db (store (handleAddTask e t)) ''tasks'').
                 fst d = i \<longrightarrow> (\<forall>k\<in>dom data. snd d k = data k)))"
proof -
  note r = handleAddTask_update_call [OF assms]
  then have em: "data = et(''updatedAt'' \<mapsto> Str (now e))" by blast
  have stored: "\<forall>d\<in>set (db (store (handleAddTask e t)) ''tasks'').
                 fst d = i \<longrightarrow> (\<forall>k\<in>dom data. snd d k = data k)" if ok
    using r that updated_document [of _ i data "db (store t) ''tasks''"] by simp
  have "data ''id'' = Some (Str i)" using r em by simp
  moreover have "\<forall>k. k \<noteq> ''updatedAt'' \<longrightarrow> data k = et k" using em by simp
  ultimately show ?thesis using r em stored by blast
qed

lemma fromDoc_apply:
  "fromDoc d k =
     (case snd d k of Some v \<Rightarrow> Some v
      | None \<Rightarrow> if k = ''id'' then Some (Str (fst d)) else None)"
  by (simp add: fromDoc_def map_add_def split: option.splits)

lemma matches_userId: "matches [(''userId'', Str uid)] d \<longleftrightarrow> snd d ''userId'' = Some (Str uid)"
  by (simp add: matches_def)

lemma updateFields_fst: "fst (updateFields i data d) = fst d"
  by (simp add: updateFields_def)

lemma updateFields_other: "k \<notin> dom data \<Longrightarrow> snd (updateFields i data d) k = snd d k"
  by (auto simp: updateFields_def map_add_def split: option.splits)

lemma updateFields_written:
  "fst d = i \<Longrightarrow> k \<in> dom data \<Longrightarrow> snd (updateFields i data d) k = data k"
  by (auto simp: updateFields_def map_add_def split: option.splits)

lemma handleUpdateTask_db:
  "db (store (handleUpdateTask e i data s)) ''tasks'' = db (store s) ''tasks'' \<or>
   db (store (handleUpdateTask e i data s)) ''tasks'' =
     map (updateFields i data) (db (store s) ''tasks'')"
  by (simp add: handleUpdateTask_def updateDoc_def fetchTasks_db)

lemma handleUpdateTask_calls:
  "take (Suc (length (calls (store s)))) (calls (store (handleUpdateTask e i data s))) =
     calls (store s) @
       [(UpdateDoc ''tasks'' i data,
         \<not> fails e (length (calls (store s))) \<and> i \<in> fst ` set (db (store s) ''tasks''))]"
  by (auto simp: handleUpdateTask_def updateDoc_def fetchTasks_def getDocs_def split: option.splits)

lemma lowerChar_idem: "lowerChar (lowerChar c) = lowerChar c"
  by (simp add: lowerChar_def)

lemma toLowerCase_idem: "toLowerCase (toLowerCase s) = toLowerCase s"
  by (simp add: toLowerCase_def lowerChar_idem)

lemma handleAddClient_db:
  "db (store (handleAddClient e s)) = db (store s) \<or>
   (\<exists>uid n. db (store (handleAddClient e s)) =
      (db (store s))(''clients'' := db (store s) ''clients'' @ [(n, clientData uid (newClient s))]))"
proof (cases rule: handleAddClient_cases [of e s])
  case (aborted m q)
  then show ?thesis by (simp add: showAlert_def)
next
  case (reaches uid q)
  show ?thesis
  proof (cases "fails e (length (calls q))")
    case True
    then show ?thesis using reaches(3)
      by (simp add: reaches(2) addClientWrite_fails showAlert_def)
  next
    case False
    then have "db (store (handleAddClient e s)) =
        (db (store s))(''clients'' := db (store s) ''clients'' @
           [(autoId e (length (calls q)), clientData uid (newClient s))])"
      using reaches(3)
      by (simp add: reaches(2) addClientWrite_ok fetchClients_db showAlert_def)
    then show ?thesis by blast
  qed
qed

lemma handleEditClient_db:
  "db (store (handleEditClient e s)) = db (store s) \<or>
   (\<exists>ec i em. editingClient s = Some ec \<and> ec ''email'' = Some (Str em) \<and>
      db (store (handleEditClient e s)) =
        (db (store s))(''clients'' :=
           map (updateFields i (ec(''email'' \<mapsto> Str (toLowerCase em)))) (db (store s) ''clients'')))"
proof (cases rule: handleEditClient_cases [of s e])
  case idle
  then show ?thesis by simp
next
  case (aborted m q)
  then show ?thesis by (simp add: showAlert_def)
next
  case (reaches ec q)
  show ?thesis
  proof (cases rule: editClientUpdate_cases [of e ec q])
    case (nocall x)
    then show ?thesis using reaches(3)
      by (simp add: reaches(2) editClientWrite_Inl [where b = q and x = x] showAlert_def)
  next
    case (failed j em)
    then show ?thesis using reaches(3)
      by (simp add: reaches(2) editClientWrite_Inl [where x = StoreError] showAlert_def)
  next
    case (written j em)
    have "db (store (handleEditClient e s)) =
        (db (store s))(''clients'' :=
           map (updateFields j (ec(''email'' \<mapsto> Str (toLowerCase em)))) (db (store s) ''clients''))"
      using reaches(3)
      by (simp add: reaches(2) editClientWrite_Inr [where u = "()"] written fetchClients_db
          showAlert_def)
    with reaches(1) written(2) show ?thesis by blast
  qed
qed

lemma lowercaseEmails_updateFields:
  assumes "lowercaseEmails docs"
  shows "lowercaseEmails (map (updateFields i (ec(''email'' \<mapsto> Str (toLowerCase em)))) docs)"
  using assms
  by (auto simp: lowercaseEmails_def list_all_iff updateFields_def toLowerCase_idem)

lemma client_writes_keep_emails_lowercase:
  assumes "lowercaseEmails (db (store s) ''clients'')"
  shows "lowercaseEmails (db (store (handleAddClient e s)) ''clients'')"
    and "lowercaseEmails (db (store (handleEditClient e s)) ''clients'')"
proof -
  show "lowercaseEmails (db (store (handleAddClient e s)) ''clients'')"
    using handleAddClient_db [of e s] assms
    by (auto simp: lowercaseEmails_def clientData_def toLowerCase_idem)
  show "lowercaseEmails (db (store (handleEditClient e s)) ''clients'')"
    using handleEditClient_db [of e s] assms lowercaseEmails_updateFields
    by auto
qed

section \<open>The claims\<close>

text \<open>
  Claim C1, as the code has it. For an Add by owner \<open>uid\<close> whose two existence queries
  are answered: if some stored client of that owner has an email equal to the lowercased
  draft email, or a phone equal to the draft phone, the Add shows one of the two duplicate
  errors, leaves the store as it was and issues no other call than the two queries; if no
  stored client of the owner does and the store accepts the write, one document is added,
  with the lowercased email and the owner identifier. Where every stored email is in lower
  case, as Add and Edit write them, a stored email equal to the draft's up to case is
  rejected as well.
\<close>

theorem handleAddClient_duplicate_check:
  assumes "currentUser s = Some uid"
    and "\<not> fails e (length (calls (store s)))"
    and "\<not> fails e (Suc (length (calls (store s))))"
  shows "((\<exists>d\<in>set (db (store s) ''clients''). snd d ''userId'' = Some (Str uid) \<and>
             (snd d ''email'' = Some (Str (toLowerCase (email (newClient s)))) \<or>
              snd d ''phone'' = Some (Str (phone (newClient s))))) \<longrightarrow>
          (alerts (handleAddClient e s) =
             alerts s @ [(''A client with this email already exists.'', AlertError)] \<or>
           alerts (handleAddClient e s) =
             alerts s @ [(''A client with this phone number already exists.'', AlertError)]) \<and>
          db (store (handleAddClient e s)) = db (store s) \<and>
          newCalls (store s) (store (handleAddClient e s)) =
            [(GetDocs ''clients'' (emailQuery uid (email (newClient s))), True),
             (GetDocs ''clients'' (phoneQuery uid (Str (phone (newClient s)))), True)]) \<and>
         (\<not> (\<exists>d\<in>set (db (store s) ''clients''). snd d ''userId'' = Some (Str uid) \<and>
             (snd d ''email'' = Some (Str (toLowerCase (email (newClient s)))) \<or>
              snd d ''phone'' = Some (Str (phone (newClient s))))) \<and>
          \<not> fails e (Suc (Suc (length (calls (store s))))) \<longrightarrow>
          db (store (handleAddClient e s)) ''clients'' =
            db (store s) ''clients'' @
              [(autoId e (Suc (Suc (length (calls (store s))))), clientData uid (newClient s))] \<and>
          clientData uid (newClient s) ''email'' =
            Some (Str (toLowerCase (email (newClient s)))) \<and>
          clientData uid (newClient s) ''userId'' = Some (Str uid)) \<and>
         ((\<forall>d\<in>set (db (store s) ''clients''). \<forall>x. snd d ''email'' = Some (Str x) \<longrightarrow>
              toLowerCase x = x) \<and>
          (\<exists>d\<in>set (db (store s) ''clients''). snd d ''userId'' = Some (Str uid) \<and>
             (\<exists>x. snd d ''email'' = Some (Str x) \<and>
                  toLowerCase x = toLowerCase (email (newClient s)))) \<longrightarrow>
          alerts (handleAddClient e s) =
            alerts s @ [(''A client with this email already exists.'', AlertError)] \<and>
          db (store (handleAddClient e s)) = db (store s))"
proof (intro conjI impI)
  assume "\<exists>d\<in>set (db (store s) ''clients''). snd d ''userId'' = Some (Str uid) \<and>
             (snd d ''email'' = Some (Str (toLowerCase (email (newClient s)))) \<or>
              snd d ''phone'' = Some (Str (phone (newClient s))))"
  then obtain d where d: "d \<in> set (db (store s) ''clients'')" "snd d ''userId'' = Some (Str uid)"
    "snd d ''email'' = Some (Str (toLowerCase (email (newClient s)))) \<or>
     snd d ''phone'' = Some (Str (phone (newClient s)))" by blast
  note r = handleAddClient_rejects [OF assms d]
  from r show "alerts (handleAddClient e s) =
             alerts s @ [(''A client with this email already exists.'', AlertError)] \<or>
           alerts (handleAddClient e s) =
             alerts s @ [(''A client with this phone number already exists.'', AlertError)]"
    by blast
  from r show "db (store (handleAddClient e s)) = db (store s)" by blast
  from r show "newCalls (store s) (store (handleAddClient e s)) =
            [(GetDocs ''clients'' (emailQuery uid (email (newClient s))), True),
             (GetDocs ''clients'' (phoneQuery uid (Str (phone (newClient s)))), True)]" by blast
next
  assume a: "\<not> (\<exists>d\<in>set (db (store s) ''clients''). snd d ''userId'' = Some (Str uid) \<and>
             (snd d ''email'' = Some (Str (toLowerCase (email (newClient s)))) \<or>
              snd d ''phone'' = Some (Str (phone (newClient s))))) \<and>
          \<not> fails e (Suc (Suc (length (calls (store s)))))"
  then have "\<forall>d\<in>set (db (store s) ''clients''). snd d ''userId'' = Some (Str uid) \<longrightarrow>
           snd d ''email'' \<noteq> Some (Str (toLowerCase (email (newClient s)))) \<and>
           snd d ''phone'' \<noteq> Some (Str (phone (newClient s)))" by blast
  with a show "db (store (handleAddClient e s)) ''clients'' =
            db (store s) ''clients'' @
              [(autoId e (Suc (Suc (length (calls (store s))))), clientData uid (newClient s))]"
    using handleAddClient_writes [OF assms] by blast
next
  show "clientData uid (newClient s) ''email'' = Some (Str (toLowerCase (email (newClient s))))"
    by (rule clientData_fields)
  show "clientData uid (newClient s) ''userId'' = Some (Str uid)"
    by (rule clientData_fields)
next
  assume a: "(\<forall>d\<in>set (db (store s) ''clients''). \<forall>x. snd d ''email'' = Some (Str x) \<longrightarrow>
              toLowerCase x = x) \<and>
          (\<exists>d\<in>set (db (store s) ''clients''). snd d ''userId'' = Some (Str uid) \<and>
             (\<exists>x. snd d ''email'' = Some (Str x) \<and>
                  toLowerCase x = toLowerCase (email (newClient s))))"
  then obtain d x where d: "d \<in> set (db (store s) ''clients'')" "snd d ''userId'' = Some (Str uid)"
    "snd d ''email'' = Some (Str x)" "toLowerCase x = toLowerCase (email (newClient s))" by blast
  with a have "toLowerCase x = x" by blast
  with d have m: "matches (emailQuery uid (email (newClient s))) d"
    by (simp add: matches_emailQuery)
  with d(1) have ne: "filter (matches (emailQuery uid (email (newClient s)))) (db (store s) ''clients'') \<noteq> []"
    by (auto simp: filter_empty_conv)
  show "alerts (handleAddClient e s) =
            alerts s @ [(''A client with this email already exists.'', AlertError)]"
    by (simp add: handleAddClient_dup_email [OF assms ne] showAlert_def)
  show "db (store (handleAddClient e s)) = db (store s)"
    by (simp add: handleAddClient_dup_email [OF assms ne] showAlert_def queried_simps)
qed

theorem handleAddClient_duplicate_check_witness:
  "currentUser (clientPage (Some ''U'') [alice] draftB None) = Some ''U'' \<and>
   \<not> fails exampleEnv (length (calls (store (clientPage (Some ''U'') [alice] draftB None)))) \<and>
   \<not> fails exampleEnv (Suc (length (calls (store (clientPage (Some ''U'') [alice] draftB None))))) \<and>
   snd alice ''userId'' = Some (Str ''U'') \<and>
   snd alice ''email'' = Some (Str (toLowerCase ''A@X.com'')) \<and>
   alerts (handleAddClient exampleEnv
      (clientPage (Some ''U'') [alice] \<lparr>name = ''B'', email = ''A@X.com'', phone = ''2''\<rparr> None)) =
     [(''A client with this email already exists.'', AlertError)] \<and>
   db (store (handleAddClient exampleEnv
      (clientPage (Some ''U'') [alice] \<lparr>name = ''B'', email = ''A@X.com'', phone = ''2''\<rparr> None)))
     ''clients'' = [alice] \<and>
   db (store (handleAddClient exampleEnv (clientPage (Some ''U'') [alice] draftB None)))
     ''clients'' = [alice, (''c9'', clientData ''U'' draftB)] \<and>
   clientData ''U'' draftB ''email'' = Some (Str ''b@x.com'')"
  using handleAddClient_duplicate_check
    [of "clientPage (Some ''U'') [alice] \<lparr>name = ''B'', email = ''A@X.com'', phone = ''2''\<rparr> None"
        "''U''" exampleEnv]
    handleAddClient_duplicate_check [of "clientPage (Some ''U'') [alice] draftB None" "''U''" exampleEnv]
  by (simp add: example_defs toLowerCase_examples clientData_def)

text \<open>
  Claim C1 as stated, at a store holding an email in mixed case: the owner's client has
  \<open>A@X.com\<close>, the draft has \<open>a@x.com\<close>, equal up to case; the query asks for
  \<open>a@x.com\<close>, finds nothing, and the second document is written.
\<close>

theorem handleAddClient_mixed_case_counterexample:
  "snd (clientDoc ''c1'' ''A'' ''A@X.com'' ''1'' ''U'') ''userId'' = Some (Str ''U'') \<and>
   snd (clientDoc ''c1'' ''A'' ''A@X.com'' ''1'' ''U'') ''email'' = Some (Str ''A@X.com'') \<and>
   toLowerCase ''A@X.com'' = toLowerCase ''a@x.com'' \<and>
   alerts (handleAddClient exampleEnv
      (clientPage (Some ''U'') [clientDoc ''c1'' ''A'' ''A@X.com'' ''1'' ''U'']
         \<lparr>name = ''B'', email = ''a@x.com'', phone = ''2''\<rparr> None)) =
     [(''Client added successfully'', AlertSuccess)] \<and>
   map fst (db (store (handleAddClient exampleEnv
      (clientPage (Some ''U'') [clientDoc ''c1'' ''A'' ''A@X.com'' ''1'' ''U'']
         \<lparr>name = ''B'', email = ''a@x.com'', phone = ''2''\<rparr> None))) ''clients'') =
     [''c1'', ''c9''] \<and>
   map (\<lambda>d. snd d ''email'') (db (store (handleAddClient exampleEnv
      (clientPage (Some ''U'') [clientDoc ''c1'' ''A'' ''A@X.com'' ''1'' ''U'']
         \<lparr>name = ''B'', email = ''a@x.com'', phone = ''2''\<rparr> None))) ''clients'') =
     [Some (Str ''A@X.com''), Some (Str ''a@x.com'')]"
  by (simp add: example_defs handler_defs toLowerCase_examples)

text \<open>
  Claim C2. Submitting the task form with no edit target, a signed-in user and a store that
  accepts the write adds one task document whose status is \<open>todo\<close>, whatever status the
  draft holds, with the owner identifier and the creation timestamp; the other properties
  are the draft's.
\<close>

theorem handleAddTask_status_todo:
  assumes "currentUser s = Some uid" and "editingTask s = None"
    and "\<not> fails e (length (calls (store s)))"
  shows "db (store (handleAddTask e s)) ''tasks'' =
           db (store s) ''tasks'' @
             [(autoId e (length (calls (store s))), taskData uid (now e) (newTask s))] \<and>
         taskData uid (now e) (newTask s) ''status'' = Some (Str ''todo'') \<and>
         taskData uid (now e) (newTask s) ''userId'' = Some (Str uid) \<and>
         taskData uid (now e) (newTask s) ''createdAt'' = Some (Str (now e)) \<and>
         taskData uid (now e) (newTask s) ''title'' = Some (Str (title (newTask s))) \<and>
         taskData uid (now e) (newTask s) ''description'' =
           Some (Str (description (newTask s))) \<and>
         taskData uid (now e) (newTask s) ''priority'' =
           Some (Str (priorityStr (priority (newTask s))))"
  using assms
  by (simp add: handleAddTask_def addDoc_def afterSubmit_db taskData_def draftObj_def)

theorem handleAddTask_status_todo_witness:
  "currentUser (taskPage (Some ''U'') [] draftT None) = Some ''U'' \<and>
   editingTask (taskPage (Some ''U'') [] draftT None) = None \<and>
   \<not> fails exampleEnv (length (calls (store (taskPage (Some ''U'') [] draftT None)))) \<and>
   status (newTask (taskPage (Some ''U'') [] draftT None)) = Completed \<and>
   map fst (db (store (handleAddTask exampleEnv (taskPage (Some ''U'') [] draftT None))) ''tasks'') =
     [''c9''] \<and>
   map (\<lambda>d. snd d ''status'')
     (db (store (handleAddTask exampleEnv (taskPage (Some ''U'') [] draftT None))) ''tasks'') =
     [Some (Str ''todo'')]"
  using handleAddTask_status_todo [of "taskPage (Some ''U'') [] draftT None" "''U''" exampleEnv]
  by (simp add: example_defs)

text \<open>
  Claim C3, as the code has it. For an Edit with a signed-in user, a buffer holding an
  email and a phone, and both existence queries answered: when a stored client of the owner
  with another identifier has, as its stored email, the buffer's email in lower case, the
  Edit shows the duplicate error, writes nothing and keeps the buffer; when the only stored
  client of the owner matching that email or the phone is the edited record itself and the
  store accepts the update, the record is updated and the buffer cleared. Where every
  stored email is in lower case, as Add and Edit write them, an edited email equal up to
  case to the email of another client of the owner is rejected as well.
\<close>

theorem handleEditClient_excludes_own_record:
  assumes "editingClient s = Some ec" and "currentUser s = Some uid"
    and "ec ''email'' = Some (Str em)" and "ec ''phone'' = Some ph"
    and "\<not> fails e (length (calls (store s)))"
    and "\<not> fails e (Suc (length (calls (store s))))"
  shows "((\<exists>d\<in>set (db (store s) ''clients''). snd d ''userId'' = Some (Str uid) \<and>
            snd d ''email'' = Some (Str (toLowerCase em)) \<and> Some (Str (fst d)) \<noteq> ec ''id'') \<longrightarrow>
          alerts (handleEditClient e s) =
            alerts s @ [(''Another client with this email already exists.'', AlertError)] \<and>
          db (store (handleEditClient e s)) = db (store s) \<and>
          newCalls (store s) (store (handleEditClient e s)) =
            [(GetDocs ''clients'' (emailQuery uid em), True),
             (GetDocs ''clients'' (phoneQuery uid ph), True)] \<and>
          editingClient (handleEditClient e s) = Some ec) \<and>
         (ec ''id'' = Some (Str i) \<and> i \<in> fst ` set (db (store s) ''clients'') \<and>
          (\<forall>d\<in>set (db (store s) ''clients''). snd d ''userId'' = Some (Str uid) \<and>
             (snd d ''email'' = Some (Str (toLowerCase em)) \<or> snd d ''phone'' = Some ph) \<longrightarrow>
             fst d = i) \<and>
          \<not> fails e (Suc (Suc (length (calls (store s))))) \<longrightarrow>
          take (Suc (length (alerts s))) (alerts (handleEditClient e s)) =
            alerts s @ [(''Client updated successfully'', AlertSuccess)] \<and>
          db (store (handleEditClient e s)) ''clients'' =
            map (updateFields i (ec(''email'' \<mapsto> Str (toLowerCase em)))) (db (store s) ''clients'') \<and>
          take 3 (newCalls (store s) (store (handleEditClient e s))) =
            [(GetDocs ''clients'' (emailQuery uid em), True),
             (GetDocs ''clients'' (phoneQuery uid ph), True),
             (UpdateDoc ''clients'' i (ec(''email'' \<mapsto> Str (toLowerCase em))), True)] \<and>
          editingClient (handleEditClient e s) = None) \<and>
         ((\<forall>d\<in>set (db (store s) ''clients''). \<forall>x. snd d ''email'' = Some (Str x) \<longrightarrow>
              toLowerCase x = x) \<and>
          (\<exists>d\<in>set (db (store s) ''clients''). snd d ''userId'' = Some (Str uid) \<and>
             (\<exists>x. snd d ''email'' = Some (Str x) \<and> toLowerCase x = toLowerCase em) \<and>
             Some (Str (fst d)) \<noteq> ec ''id'') \<longrightarrow>
          alerts (handleEditClient e s) =
            alerts s @ [(''Another client with this email already exists.'', AlertError)] \<and>
          db (store (handleEditClient e s)) = db (store s) \<and>
          editingClient (handleEditClient e s) = Some ec)"
proof (intro conjI impI)
  assume "\<exists>d\<in>set (db (store s) ''clients''). snd d ''userId'' = Some (Str uid) \<and>
            snd d ''email'' = Some (Str (toLowerCase em)) \<and> Some (Str (fst d)) \<noteq> ec ''id''"
  then obtain d where d: "d \<in> set (db (store s) ''clients'')"
    "snd d ''userId'' = Some (Str uid)" "snd d ''email'' = Some (Str (toLowerCase em))"
    "Some (Str (fst d)) \<noteq> ec ''id''" by blast
  then have "d \<in> set (filter (matches (emailQuery uid em)) (db (store s) ''clients''))"
    by (simp add: matches_emailQuery)
  with d(4) have "otherThan ec (filter (matches (emailQuery uid em)) (db (store s) ''clients''))"
    unfolding otherThan_iff by blast
  note h = handleEditClient_checked(1) [OF assms this]
  show "alerts (handleEditClient e s) =
            alerts s @ [(''Another client with this email already exists.'', AlertError)]"
    by (simp add: h showAlert_def)
  show "db (store (handleEditClient e s)) = db (store s)"
    by (simp add: h showAlert_def queried_simps)
  show "newCalls (store s) (store (handleEditClient e s)) =
            [(GetDocs ''clients'' (emailQuery uid em), True),
             (GetDocs ''clients'' (phoneQuery uid ph), True)]"
    using assms(5,6) by (simp add: h showAlert_def queried_simps)
  show "editingClient (handleEditClient e s) = Some ec"
    using assms(1) by (simp add: h showAlert_def)
next
  assume a: "ec ''id'' = Some (Str i) \<and> i \<in> fst ` set (db (store s) ''clients'') \<and>
          (\<forall>d\<in>set (db (store s) ''clients''). snd d ''userId'' = Some (Str uid) \<and>
             (snd d ''email'' = Some (Str (toLowerCase em)) \<or> snd d ''phone'' = Some ph) \<longrightarrow>
             fst d = i) \<and>
          \<not> fails e (Suc (Suc (length (calls (store s)))))"
  let ?q = "queried e (emailQuery uid em) (phoneQuery uid ph) (store s)"
  let ?data = "ec(''email'' \<mapsto> Str (toLowerCase em))"
  from a have own: "\<forall>d\<in>set (db (store s) ''clients''). snd d ''userId'' = Some (Str uid) \<and>
             (snd d ''email'' = Some (Str (toLowerCase em)) \<or> snd d ''phone'' = Some ph) \<longrightarrow>
             fst d = i" by blast
  from a have id: "ec ''id'' = Some (Str i)" by blast
  have n1: "\<not> otherThan ec (filter (matches (emailQuery uid em)) (db (store s) ''clients''))"
    unfolding otherThan_iff using own id by (simp add: matches_emailQuery)
  have n2: "\<not> otherThan ec (filter (matches (phoneQuery uid ph)) (db (store s) ''clients''))"
    unfolding otherThan_iff using own id by (simp add: matches_phoneQuery)
  note h = handleEditClient_checked(3) [OF assms n1 n2]
  from a have u: "editClientUpdate e ec ?q =
      (Inr (), ?q\<lparr>db := (db ?q)(''clients'' := map (updateFields i ?data) (db ?q ''clients'')),
                 calls := calls ?q @ [(UpdateDoc ''clients'' i ?data, True)]\<rparr>)"
    by (simp add: editClientUpdate_call [OF id assms(3)] updateDoc_eq queried_simps)
  note w = editClientWrite_Inr [where u = "()" and s = "s\<lparr>store := ?q\<rparr>", simplified, OF u]
  show "take (Suc (length (alerts s))) (alerts (handleEditClient e s)) =
            alerts s @ [(''Client updated successfully'', AlertSuccess)]"
    by (simp add: h w fetchClients_alerts showAlert_def)
  show "db (store (handleEditClient e s)) ''clients'' =
            map (updateFields i ?data) (db (store s) ''clients'')"
    by (simp add: h w fetchClients_db showAlert_def queried_simps)
  show "take 3 (newCalls (store s) (store (handleEditClient e s))) =
            [(GetDocs ''clients'' (emailQuery uid em), True),
             (GetDocs ''clients'' (phoneQuery uid ph), True),
             (UpdateDoc ''clients'' i ?data, True)]"
  proof -
    have "calls (store (handleEditClient e s)) =
            calls ?q @ [(UpdateDoc ''clients'' i ?data, True),
              (GetDocs ''clients'' [(''userId'', Str uid)], \<not> fails e (Suc (length (calls ?q))))]"
      using assms(2) by (simp add: h w fetchClients_calls showAlert_def)
    then show ?thesis
      using assms(5,6) by (simp add: newCalls_def queried_def)
  qed
  show "editingClient (handleEditClient e s) = None"
    by (simp add: h w fetchClients_frame showAlert_def)
next
  assume a: "(\<forall>d\<in>set (db (store s) ''clients''). \<forall>x. snd d ''email'' = Some (Str x) \<longrightarrow>
              toLowerCase x = x) \<and>
          (\<exists>d\<in>set (db (store s) ''clients''). snd d ''userId'' = Some (Str uid) \<and>
             (\<exists>x. snd d ''email'' = Some (Str x) \<and> toLowerCase x = toLowerCase em) \<and>
             Some (Str (fst d)) \<noteq> ec ''id'')"
  then obtain d x where d: "d \<in> set (db (store s) ''clients'')"
    "snd d ''userId'' = Some (Str uid)" "snd d ''email'' = Some (Str x)"
    "toLowerCase x = toLowerCase em" "Some (Str (fst d)) \<noteq> ec ''id''" by blast
  with a have "toLowerCase x = x" by blast
  with d have "d \<in> set (filter (matches (emailQuery uid em)) (db (store s) ''clients''))"
    by (simp add: matches_emailQuery)
  with d(5) have "otherThan ec (filter (matches (emailQuery uid em)) (db (store s) ''clients''))"
    unfolding otherThan_iff by blast
  note h = handleEditClient_checked(1) [OF assms this]
  show "alerts (handleEditClient e s) =
            alerts s @ [(''Another client with this email already exists.'', AlertError)]"
    by (simp add: h showAlert_def)
  show "db (store (handleEditClient e s)) = db (store s)"
    by (simp add: h showAlert_def queried_simps)
  show "editingClient (handleEditClient e s) = Some ec"
    using assms(1) by (simp add: h showAlert_def)
qed

theorem handleEditClient_excludes_own_record_witness:
  "editingClient (editPage ((fromDoc alice)(''email'' \<mapsto> Str ''B@x.com''))) =
     Some ((fromDoc alice)(''email'' \<mapsto> Str ''B@x.com'')) \<and>
   currentUser (editPage (fromDoc alice)) = Some ''U'' \<and>
   fromDoc alice ''email'' = Some (Str ''a@x.com'') \<and>
   fromDoc alice ''phone'' = Some (Str ''1'') \<and>
   fromDoc alice ''id'' = Some (Str ''c1'') \<and>
   \<not> fails exampleEnv (length (calls (store (editPage (fromDoc alice))))) \<and>
   \<not> fails exampleEnv (Suc (length (calls (store (editPage (fromDoc alice)))))) \<and>
   \<not> fails exampleEnv (Suc (Suc (length (calls (store (editPage (fromDoc alice))))))) \<and>
   snd bob ''userId'' = Some (Str ''U'') \<and>
   snd bob ''email'' = Some (Str (toLowerCase ''B@x.com'')) \<and>
   fst bob = ''c2'' \<and>
   snd alice ''email'' = Some (Str ''a@x.com'') \<and> toLowerCase ''a@x.com'' = ''a@x.com'' \<and>
   snd bob ''email'' = Some (Str ''b@x.com'') \<and> toLowerCase ''b@x.com'' = ''b@x.com'' \<and>
   toLowerCase ''b@x.com'' = toLowerCase ''B@x.com'' \<and>
   alerts (handleEditClient exampleEnv
      (editPage ((fromDoc alice)(''email'' \<mapsto> Str ''B@x.com'')))) =
     [(''Another client with this email already exists.'', AlertError)] \<and>
   db (store (handleEditClient exampleEnv
      (editPage ((fromDoc alice)(''email'' \<mapsto> Str ''B@x.com''))))) ''clients'' = [alice, bob] \<and>
   editingClient (handleEditClient exampleEnv (editPage (fromDoc alice))) = None \<and>
   take (Suc 0) (alerts (handleEditClient exampleEnv (editPage (fromDoc alice)))) =
     [(''Client updated successfully'', AlertSuccess)] \<and>
   map fst (db (store (handleEditClient exampleEnv (editPage (fromDoc alice)))) ''clients'') =
     [''c1'', ''c2'']"
  using handleEditClient_excludes_own_record
    [of "editPage ((fromDoc alice)(''email'' \<mapsto> Str ''B@x.com''))"
        "(fromDoc alice)(''email'' \<mapsto> Str ''B@x.com'')" "''U''" "''B@x.com''" "Str ''1''"
        exampleEnv]
    handleEditClient_excludes_own_record
    [of "editPage (fromDoc alice)" "fromDoc alice" "''U''" "''a@x.com''" "Str ''1''"
        exampleEnv "''c1''"]
  by (simp add: example_defs editPage_def fromDoc_def toLowerCase_examples updateFields_def)

text \<open>
  Claim C3 as stated, at a store holding an email in mixed case: another client of the
  owner has \<open>B@X.com\<close> and the edited email is exactly \<open>B@X.com\<close>; the query asks
  for \<open>b@x.com\<close>, finds nothing, and the update is written.
\<close>

theorem handleEditClient_mixed_case_counterexample:
  "snd (clientDoc ''c2'' ''B'' ''B@X.com'' ''2'' ''U'') ''userId'' = Some (Str ''U'') \<and>
   snd (clientDoc ''c2'' ''B'' ''B@X.com'' ''2'' ''U'') ''email'' = Some (Str ''B@X.com'') \<and>
   ((fromDoc alice)(''email'' \<mapsto> Str ''B@X.com'')) ''email'' = Some (Str ''B@X.com'') \<and>
   ((fromDoc alice)(''email'' \<mapsto> Str ''B@X.com'')) ''id'' = Some (Str ''c1'') \<and>
   alerts (handleEditClient exampleEnv
      (clientPage (Some ''U'') [alice, clientDoc ''c2'' ''B'' ''B@X.com'' ''2'' ''U''] emptyDraft
         (Some ((fromDoc alice)(''email'' \<mapsto> Str ''B@X.com''))))) =
     [(''Client updated successfully'', AlertSuccess)] \<and>
   map (\<lambda>d. (fst d, snd d ''email''))
     (db (store (handleEditClient exampleEnv
        (clientPage (Some ''U'') [alice, clientDoc ''c2'' ''B'' ''B@X.com'' ''2'' ''U''] emptyDraft
           (Some ((fromDoc alice)(''email'' \<mapsto> Str ''B@X.com'')))))) ''clients'') =
     [(''c1'', Some (Str ''b@x.com'')), (''c2'', Some (Str ''B@X.com''))]"
  by (simp add: example_defs handler_defs toLowerCase_examples)

text \<open>
  Claim C4. The status control of a task card leaves the identifier and the title,
  description, priority and dueDate of every stored task as they were; indeed every field
  other than status. The update it sends holds the status field only.
\<close>

theorem inline_status_change_frame:
  "map (\<lambda>d. (fst d, snd d ''title'', snd d ''description'', snd d ''priority'', snd d ''dueDate''))
       (db (store (TaskColumn_onChange e task v s)) ''tasks'') =
   map (\<lambda>d. (fst d, snd d ''title'', snd d ''description'', snd d ''priority'', snd d ''dueDate''))
       (db (store s) ''tasks'') \<and>
   map (\<lambda>d. (fst d, snd d |` (- {''status''}))) (db (store (TaskColumn_onChange e task v s)) ''tasks'') =
   map (\<lambda>d. (fst d, snd d |` (- {''status''}))) (db (store s) ''tasks'') \<and>
   (task ''id'' = Some (Str i) \<longrightarrow>
      take (Suc (length (calls (store s)))) (calls (store (TaskColumn_onChange e task v s))) =
        calls (store s) @
          [(UpdateDoc ''tasks'' i [''status'' \<mapsto> Str v],
            \<not> fails e (length (calls (store s))) \<and> i \<in> fst ` set (db (store s) ''tasks''))] \<and>
      dom [''status'' \<mapsto> Str v] = {''status''})"
proof -
  let ?upd = "[''status'' \<mapsto> Str v]"
  let ?f = "\<lambda>d::document. (fst d, snd d ''title'', snd d ''description'', snd d ''priority'', snd d ''dueDate'')"
  let ?g = "\<lambda>d::document. (fst d, snd d |` (- {''status''}))"
  have f: "?f (updateFields j ?upd d) = ?f d" for j d
    by (simp add: updateFields_fst updateFields_other)
  have g: "?g (updateFields j ?upd d) = ?g d" for j d
    by (auto simp: updateFields_def restrict_map_def map_add_def)
  have frame: "map ?f (db (store (handleUpdateTask e j ?upd s)) ''tasks'') = map ?f (db (store s) ''tasks'') \<and>
               map ?g (db (store (handleUpdateTask e j ?upd s)) ''tasks'') = map ?g (db (store s) ''tasks'')" for j
    using handleUpdateTask_db [of e j ?upd s] f g by (auto simp: comp_def simp del: fun_upd_apply)
  show ?thesis
    using frame handleUpdateTask_calls [of s e _ ?upd]
    by (auto simp: TaskColumn_onChange_def split: option.splits jsval.splits)
qed

theorem inline_status_change_frame_witness:
  "fromDoc task1 ''id'' = Some (Str ''t1'') \<and>
   take (Suc (length (calls (store (taskPage (Some ''U'') [task1] draftT None)))))
     (calls (store (TaskColumn_onChange exampleEnv (fromDoc task1) ''completed''
        (taskPage (Some ''U'') [task1] draftT None)))) =
     [(UpdateDoc ''tasks'' ''t1'' [''status'' \<mapsto> Str ''completed''], True)] \<and>
   map (\<lambda>d. (snd d ''status'', snd d ''title''))
     (db (store (TaskColumn_onChange exampleEnv (fromDoc task1) ''completed''
        (taskPage (Some ''U'') [task1] draftT None))) ''tasks'') =
     [(Some (Str ''completed''), Some (Str ''T1''))]"
  using inline_status_change_frame
    [of exampleEnv "fromDoc task1" "''completed''" "taskPage (Some ''U'') [task1] draftT None" "''t1''"]
  by (simp add: example_defs fromDoc_def TaskColumn_onChange_def handleUpdateTask_def updateDoc_def
      fetchTasks_def getDocs_def updateFields_def)

text \<open>
  Claim C5. When the confirmation is declined, deleting a client changes nothing: no call
  reaches the store, the collection is the same and the next List gives what it would have
  given (the same holds for tasks). When it is confirmed, the user is signed in and the
  store accepts the delete, the document with that identifier is gone and List is run again.
\<close>

theorem handleDeleteClient_confirmation:
  "(\<not> confirm e \<longrightarrow>
      handleDeleteClient e i s = s \<and>
      calls (store (handleDeleteClient e i s)) = calls (store s) \<and>
      db (store (handleDeleteClient e i s)) = db (store s) \<and>
      fetchClients e' (handleDeleteClient e i s) = fetchClients e' s) \<and>
   (confirm e \<and> \<not> fails e (length (calls (store s))) \<and> currentUser s = Some uid \<longrightarrow>
      db (store (handleDeleteClient e i s)) ''clients'' =
        filter (\<lambda>d. fst d \<noteq> i) (db (store s) ''clients'') \<and>
      calls (store (handleDeleteClient e i s)) =
        calls (store s) @
          [(DeleteDoc ''clients'' i, True),
           (GetDocs ''clients'' [(''userId'', Str uid)],
            \<not> fails e (Suc (length (calls (store s)))))] \<and>
      (\<not> fails e (Suc (length (calls (store s)))) \<longrightarrow>
         clients (handleDeleteClient e i s) =
           map fromDoc (filter (matches [(''userId'', Str uid)])
             (filter (\<lambda>d. fst d \<noteq> i) (db (store s) ''clients''))))) \<and>
   (\<not> confirm e \<longrightarrow> handleDeleteTask e i t = t)"
  by (simp add: handleDeleteClient_def handleDeleteTask_def deleteDoc_def fetchClients_def
      getDocs_eq showAlert_def)

theorem handleDeleteClient_confirmation_witness:
  "\<not> confirm declining \<and>
   handleDeleteClient declining ''c1'' (clientPage (Some ''U'') [alice, bob] emptyDraft None) =
     clientPage (Some ''U'') [alice, bob] emptyDraft None \<and>
   confirm exampleEnv \<and>
   \<not> fails exampleEnv (length (calls (store (clientPage (Some ''U'') [alice, bob] emptyDraft None)))) \<and>
   currentUser (clientPage (Some ''U'') [alice, bob] emptyDraft None) = Some ''U'' \<and>
   db (store (handleDeleteClient exampleEnv ''c1''
        (clientPage (Some ''U'') [alice, bob] emptyDraft None))) ''clients'' = [bob] \<and>
   calls (store (handleDeleteClient exampleEnv ''c1''
        (clientPage (Some ''U'') [alice, bob] emptyDraft None))) =
     [(DeleteDoc ''clients'' ''c1'', True), (GetDocs ''clients'' [(''userId'', Str ''U'')], True)] \<and>
   clients (handleDeleteClient exampleEnv ''c1''
        (clientPage (Some ''U'') [alice, bob] emptyDraft None)) = [fromDoc bob]"
  using handleDeleteClient_confirmation
      [of declining "''c1''" "clientPage (Some ''U'') [alice, bob] emptyDraft None"]
    handleDeleteClient_confirmation
      [of exampleEnv "''c1''" "clientPage (Some ''U'') [alice, bob] emptyDraft None" _ "''U''"]
  by (simp add: example_defs matches_def)

text \<open>
  Claim C6. A client List whose query fails shows the notification and leaves the local
  list as it was (empty or not); one whose query succeeds replaces the local list by the
  query result and shows nothing: one row for each stored client whose \<open>userId\<close> is the
  user's, in the order of the store, holding every field of the document and, where the
  document has no \<open>id\<close> field of its own, the document's identifier as \<open>id\<close>.
\<close>

theorem fetchClients_result:
  assumes "currentUser s = Some uid"
  shows "(fails e (length (calls (store s))) \<longrightarrow>
            alerts (fetchClients e s) = alerts s @ [(''Failed to fetch clients'', AlertError)] \<and>
            clients (fetchClients e s) = clients s) \<and>
         (\<not> fails e (length (calls (store s))) \<longrightarrow>
            clients (fetchClients e s) =
              map (\<lambda>d k. case snd d k of Some v \<Rightarrow> Some v
                          | None \<Rightarrow> if k = ''id'' then Some (Str (fst d)) else None)
                (filter (\<lambda>d. snd d ''userId'' = Some (Str uid)) (db (store s) ''clients'')) \<and>
            alerts (fetchClients e s) = alerts s)"
proof -
  have row: "fromDoc = (\<lambda>d k. case snd d k of Some v \<Rightarrow> Some v
                          | None \<Rightarrow> if k = ''id'' then Some (Str (fst d)) else None)"
    by (intro ext) (rule fromDoc_apply)
  have q: "matches [(''userId'', Str uid)] = (\<lambda>d. snd d ''userId'' = Some (Str uid))"
    by (intro ext) (rule matches_userId)
  have "\<not> fails e (length (calls (store s))) \<longrightarrow>
          clients (fetchClients e s) =
            map fromDoc (filter (matches [(''userId'', Str uid)]) (db (store s) ''clients''))"
    using assms by (simp add: fetchClients_def getDocs_def showAlert_def)
  moreover have "fails e (length (calls (store s))) \<longrightarrow>
            alerts (fetchClients e s) = alerts s @ [(''Failed to fetch clients'', AlertError)] \<and>
            clients (fetchClients e s) = clients s"
    using assms by (simp add: fetchClients_def getDocs_def showAlert_def)
  moreover have "\<not> fails e (length (calls (store s))) \<longrightarrow> alerts (fetchClients e s) = alerts s"
    using assms by (simp add: fetchClients_def getDocs_def showAlert_def)
  ultimately show ?thesis
    unfolding row q by blast
qed

theorem fetchClients_result_witness:
  "currentUser (clientPage (Some ''U'') [alice] emptyDraft None) = Some ''U'' \<and>
   fails (rejecting 0) (length (calls (store (clientPage (Some ''U'') [alice] emptyDraft None)))) \<and>
   alerts (fetchClients (rejecting 0) (clientPage (Some ''U'') [alice] emptyDraft None)) =
     [(''Failed to fetch clients'', AlertError)] \<and>
   clients (fetchClients (rejecting 0) (clientPage (Some ''U'') [alice] emptyDraft None)) =
     clients (clientPage (Some ''U'') [alice] emptyDraft None) \<and>
   length (clients (clientPage (Some ''U'') [alice] emptyDraft None)) = 1 \<and>
   \<not> fails exampleEnv (length (calls (store (clientPage (Some ''U'') [alice, bob] emptyDraft None)))) \<and>
   map (\<lambda>c. (c ''id'', c ''name'', c ''email'', c ''phone'', c ''userId'', c ''status''))
     (clients (fetchClients exampleEnv
        ((clientPage (Some ''U'') [alice, bob, clientDoc ''c3'' ''C'' ''c@x.com'' ''3'' ''V'']
            emptyDraft None)\<lparr>clients := []\<rparr>))) =
     [(Some (Str ''c1''), Some (Str ''A''), Some (Str ''a@x.com''), Some (Str ''1''),
       Some (Str ''U''), None),
      (Some (Str ''c2''), Some (Str ''B''), Some (Str ''b@x.com''), Some (Str ''2''),
       Some (Str ''U''), None)]"
  using fetchClients_result [of "clientPage (Some ''U'') [alice] emptyDraft None" "''U''" "rejecting 0"]
    fetchClients_result
      [of "(clientPage (Some ''U'') [alice, bob, clientDoc ''c3'' ''C'' ''c@x.com'' ''3'' ''V'']
             emptyDraft None)\<lparr>clients := []\<rparr>"
       "''U''" exampleEnv]
  by (simp add: example_defs)

text \<open>
  Claim C7. Whenever the store rejects the write of an Add or of an Edit, the failure
  message is shown and the local list, the modal flag and the form buffer (\<open>newClient\<close>,
  \<open>editingClient\<close>) are what they were. The modal is closed or the draft reset by an
  Add, and the edit buffer cleared by an Edit, only when the store accepted the write.
\<close>

theorem client_write_failure_recoverable:
  "((AddDoc c data, False) \<in> set (newCalls (store s) (store (handleAddClient e s))) \<longrightarrow>
      alerts (handleAddClient e s) =
        alerts s @ [(''Failed to add client. Please try again later.'', AlertError)] \<and>
      clients (handleAddClient e s) = clients s \<and>
      isModalOpen (handleAddClient e s) = isModalOpen s \<and>
      newClient (handleAddClient e s) = newClient s \<and>
      editingClient (handleAddClient e s) = editingClient s) \<and>
   ((UpdateDoc c i data, False) \<in> set (newCalls (store s) (store (handleEditClient e s))) \<longrightarrow>
      alerts (handleEditClient e s) =
        alerts s @ [(''Failed to update client. Please try again later.'', AlertError)] \<and>
      clients (handleEditClient e s) = clients s \<and>
      isModalOpen (handleEditClient e s) = isModalOpen s \<and>
      editingClient (handleEditClient e s) = editingClient s) \<and>
   (isModalOpen (handleAddClient e s) \<noteq> isModalOpen s \<or>
    newClient (handleAddClient e s) \<noteq> newClient s \<longrightarrow>
      (\<exists>d. (AddDoc ''clients'' d, True) \<in>
         set (newCalls (store s) (store (handleAddClient e s))))) \<and>
   (editingClient (handleEditClient e s) \<noteq> editingClient s \<longrightarrow>
      (\<exists>j d. (UpdateDoc ''clients'' j d, True) \<in>
         set (newCalls (store s) (store (handleEditClient e s)))))"
  using handleAddClient_failed_write [of c data s e]
    handleEditClient_failed_write [of c i data s e]
    handleAddClient_reset_needs_write [of e s]
    handleEditClient_reset_needs_write [of e s]
  by blast

theorem client_write_failure_recoverable_witness:
  "(AddDoc ''clients'' (clientData ''U'' draftB), False) \<in>
     set (newCalls (store (clientPage (Some ''U'') [alice] draftB None))
            (store (handleAddClient (rejecting 2) (clientPage (Some ''U'') [alice] draftB None)))) \<and>
   alerts (handleAddClient (rejecting 2) (clientPage (Some ''U'') [alice] draftB None)) =
     [(''Failed to add client. Please try again later.'', AlertError)] \<and>
   isModalOpen (handleAddClient (rejecting 2) (clientPage (Some ''U'') [alice] draftB None)) \<and>
   newClient (handleAddClient (rejecting 2) (clientPage (Some ''U'') [alice] draftB None)) = draftB \<and>
   (UpdateDoc ''clients'' ''c1'' ((fromDoc alice)(''email'' \<mapsto> Str ''a@x.com'')), False) \<in>
     set (newCalls (store (editPage (fromDoc alice)))
            (store (handleEditClient (rejecting 2) (editPage (fromDoc alice))))) \<and>
   alerts (handleEditClient (rejecting 2) (editPage (fromDoc alice))) =
     [(''Failed to update client. Please try again later.'', AlertError)] \<and>
   editingClient (handleEditClient (rejecting 2) (editPage (fromDoc alice))) =
     Some (fromDoc alice) \<and>
   isModalOpen (handleAddClient exampleEnv (clientPage (Some ''U'') [alice] draftB None)) \<noteq>
     isModalOpen (clientPage (Some ''U'') [alice] draftB None) \<and>
   (AddDoc ''clients'' (clientData ''U'' draftB), True) \<in>
     set (newCalls (store (clientPage (Some ''U'') [alice] draftB None))
            (store (handleAddClient exampleEnv (clientPage (Some ''U'') [alice] draftB None)))) \<and>
   editingClient (handleEditClient exampleEnv (editPage (fromDoc alice))) \<noteq>
     editingClient (editPage (fromDoc alice)) \<and>
   (UpdateDoc ''clients'' ''c1'' ((fromDoc alice)(''email'' \<mapsto> Str ''a@x.com'')), True) \<in>
     set (newCalls (store (editPage (fromDoc alice)))
            (store (handleEditClient exampleEnv (editPage (fromDoc alice)))))"
proof -
  let ?sa = "clientPage (Some ''U'') [alice] draftB None"
  let ?se = "editPage (fromDoc alice)"
  let ?upd = "(fromDoc alice)(''email'' \<mapsto> Str ''a@x.com'')"
  have a: "(AddDoc ''clients'' (clientData ''U'' draftB), False) \<in>
     set (newCalls (store ?sa) (store (handleAddClient (rejecting 2) ?sa)))"
    by (simp add: example_defs handler_defs toLowerCase_examples)
  have b: "(UpdateDoc ''clients'' ''c1'' ?upd, False) \<in>
     set (newCalls (store ?se) (store (handleEditClient (rejecting 2) ?se)))"
    by (simp add: example_defs editPage_def handler_defs toLowerCase_examples)
  have c: "isModalOpen (handleAddClient exampleEnv ?sa) \<noteq> isModalOpen ?sa"
    by (simp add: example_defs handler_defs toLowerCase_examples)
  have d: "editingClient (handleEditClient exampleEnv ?se) \<noteq> editingClient ?se"
    by (simp add: example_defs editPage_def handler_defs toLowerCase_examples)
  have e: "(AddDoc ''clients'' (clientData ''U'' draftB), True) \<in>
     set (newCalls (store ?sa) (store (handleAddClient exampleEnv ?sa)))"
    by (simp add: example_defs handler_defs toLowerCase_examples)
  have f: "(UpdateDoc ''clients'' ''c1'' ?upd, True) \<in>
     set (newCalls (store ?se) (store (handleEditClient exampleEnv ?se)))"
    by (simp add: example_defs editPage_def handler_defs toLowerCase_examples)
  have sa: "alerts ?sa = []" "isModalOpen ?sa" "newClient ?sa = draftB"
    by (simp_all add: clientPage_def)
  have se: "alerts ?se = []" "editingClient ?se = Some (fromDoc alice)"
    by (simp_all add: clientPage_def editPage_def)
  from client_write_failure_recoverable
         [of "''clients''" "clientData ''U'' draftB" ?sa "rejecting 2"] a
  have t1: "alerts (handleAddClient (rejecting 2) ?sa) =
              alerts ?sa @ [(''Failed to add client. Please try again later.'', AlertError)]"
    "isModalOpen (handleAddClient (rejecting 2) ?sa) = isModalOpen ?sa"
    "newClient (handleAddClient (rejecting 2) ?sa) = newClient ?sa"
    by blast+
  from client_write_failure_recoverable [of _ ?upd ?se "rejecting 2" "''c1''"] b
  have t2: "alerts (handleEditClient (rejecting 2) ?se) =
              alerts ?se @ [(''Failed to update client. Please try again later.'', AlertError)]"
    "editingClient (handleEditClient (rejecting 2) ?se) = editingClient ?se"
    by blast+
  show ?thesis
    using a b c d e f by (simp only: t1 t2 sa se) simp
qed

text \<open>
  Claim C8. For a signed-in user the onboarding link is the origin, \<open>/onboard/\<close> and
  the user's identifier; two computations with the same user and origin give the same link.
\<close>

theorem onboardingLink_deterministic:
  assumes "currentUser s = Some uid" and "currentUser s' = Some uid" and "origin e' = origin e"
  shows "onboardingLink (useEffect e s) = origin e @ ''/onboard/'' @ uid \<and>
         onboardingLink (useEffect e' s') = onboardingLink (useEffect e s)"
  using assms by (simp add: useEffect_def)

theorem onboardingLink_deterministic_witness:
  "currentUser (clientPage (Some ''U'') [] \<lparr>name = [], email = [], phone = []\<rparr> None) = Some ''U'' \<and>
   onboardingLink (useEffect exampleEnv
      (clientPage (Some ''U'') [] \<lparr>name = [], email = [], phone = []\<rparr> None)) =
     ''https://app.example.com/onboard/U''"
  using onboardingLink_deterministic
    [of "clientPage (Some ''U'') [] \<lparr>name = [], email = [], phone = []\<rparr> None" "''U''"
        "clientPage (Some ''U'') [] \<lparr>name = [], email = [], phone = []\<rparr> None"
        exampleEnv exampleEnv]
  by (simp add: example_defs)

text \<open>
  Claim C9. Every update an Edit sends, of a client or of a task, carries the whole local
  record: its \<open>id\<close> property and every other property of the buffer, with the email in
  lower case (client) or a fresh \<open>updatedAt\<close> (task); when the store accepts it, the
  stored document holds all of them in its body.
\<close>

theorem edit_spreads_whole_record:
  "(editingClient s = Some ec \<and>
    (UpdateDoc c i data, ok) \<in> set (newCalls (store s) (store (handleEditClient e s))) \<longrightarrow>
      c = ''clients'' \<and> ec ''id'' = Some (Str i) \<and> data ''id'' = Some (Str i) \<and>
      (\<exists>em. ec ''email'' = Some (Str em) \<and> data = ec(''email'' \<mapsto> Str (toLowerCase em))) \<and>
      (\<forall>k. k \<noteq> ''email'' \<longrightarrow> data k = ec k) \<and>
      (ok \<longrightarrow> (\<forall>d\<in>set (db (store (handleEditClient e s)) ''clients'').
                 fst d = i \<longrightarrow> (\<forall>k\<in>dom data. snd d k = data k)))) \<and>
   (editingTask t = Some et \<and>
    (UpdateDoc c i data, ok) \<in> set (newCalls (store t) (store (handleAddTask e t))) \<longrightarrow>
      c = ''tasks'' \<and> et ''id'' = Some (Str i) \<and> data ''id'' = Some (Str i) \<and>
      data = et(''updatedAt'' \<mapsto> Str (now e)) \<and>
      (\<forall>k. k \<noteq> ''updatedAt'' \<longrightarrow> data k = et k) \<and>
      (ok \<longrightarrow> (\<forall>d\<in>set (db (store (handleAddTask e t)) ''tasks'').
                 fst d = i \<longrightarrow> (\<forall>k\<in>dom data. snd d k = data k))))"
proof (rule conjI)
  show "editingClient s = Some ec \<and>
    (UpdateDoc c i data, ok) \<in> set (newCalls (store s) (store (handleEditClient e s))) \<longrightarrow>
      c = ''clients'' \<and> ec ''id'' = Some (Str i) \<and> data ''id'' = Some (Str i) \<and>
      (\<exists>em. ec ''email'' = Some (Str em) \<and> data = ec(''email'' \<mapsto> Str (toLowerCase em))) \<and>
      (\<forall>k. k \<noteq> ''email'' \<longrightarrow> data k = ec k) \<and>
      (ok \<longrightarrow> (\<forall>d\<in>set (db (store (handleEditClient e s)) ''clients'').
                 fst d = i \<longrightarrow> (\<forall>k\<in>dom data. snd d k = data k)))"
    using spread_client_buffer [of s ec c i data ok e] by (rule_tac impI) (erule conjE, blast)
  show "editingTask t = Some et \<and>
    (UpdateDoc c i data, ok) \<in> set (newCalls (store t) (store (handleAddTask e t))) \<longrightarrow>
      c = ''tasks'' \<and> et ''id'' = Some (Str i) \<and> data ''id'' = Some (Str i) \<and>
      data = et(''updatedAt'' \<mapsto> Str (now e)) \<and>
      (\<forall>k. k \<noteq> ''updatedAt'' \<longrightarrow> data k = et k) \<and>
      (ok \<longrightarrow> (\<forall>d\<in>set (db (store (handleAddTask e t)) ''tasks'').
                 fst d = i \<longrightarrow> (\<forall>k\<in>dom data. snd d k = data k)))"
    using spread_task_buffer [of t et c i data ok e] by (rule_tac impI) (erule conjE, blast)
qed

theorem edit_spreads_whole_record_witness:
  "editingClient (editPage aliceEdited) = Some aliceEdited \<and>
   (UpdateDoc ''clients'' ''c1'' (aliceEdited(''email'' \<mapsto> Str ''a@x.com'')), True) \<in>
     set (newCalls (store (editPage aliceEdited))
            (store (handleEditClient exampleEnv (editPage aliceEdited)))) \<and>
   (aliceEdited(''email'' \<mapsto> Str ''a@x.com'')) ''id'' = Some (Str ''c1'') \<and>
   (aliceEdited(''email'' \<mapsto> Str ''a@x.com'')) ''selfOnboarded'' = Some (Bool True) \<and>
   map (\<lambda>d. (snd d ''id'', snd d ''selfOnboarded'', snd d ''email''))
     (db (store (handleEditClient exampleEnv (editPage aliceEdited))) ''clients'') =
     [(Some (Str ''c1''), Some (Bool True), Some (Str ''a@x.com'')),
      (None, None, Some (Str ''b@x.com''))] \<and>
   editingTask (taskPage (Some ''U'') [task1] draftT (Some (fromDoc task1))) =
     Some (fromDoc task1) \<and>
   (UpdateDoc ''tasks'' ''t1'' ((fromDoc task1)(''updatedAt'' \<mapsto> Str (now exampleEnv))), True) \<in>
     set (newCalls (store (taskPage (Some ''U'') [task1] draftT (Some (fromDoc task1))))
            (store (handleAddTask exampleEnv
               (taskPage (Some ''U'') [task1] draftT (Some (fromDoc task1)))))) \<and>
   ((fromDoc task1)(''updatedAt'' \<mapsto> Str (now exampleEnv))) ''id'' = Some (Str ''t1'') \<and>
   map (\<lambda>d. (snd d ''id'', snd d ''updatedAt''))
     (db (store (handleAddTask exampleEnv
        (taskPage (Some ''U'') [task1] draftT (Some (fromDoc task1))))) ''tasks'') =
     [(Some (Str ''t1''), Some (Str (now exampleEnv)))]"
proof -
  let ?s = "editPage aliceEdited"
  let ?data = "aliceEdited(''email'' \<mapsto> Str ''a@x.com'')"
  let ?t = "taskPage (Some ''U'') [task1] draftT (Some (fromDoc task1))"
  let ?tdata = "(fromDoc task1)(''updatedAt'' \<mapsto> Str (now exampleEnv))"
  have a: "editingClient ?s = Some aliceEdited"
    by (simp add: editPage_def clientPage_def)
  have b: "(UpdateDoc ''clients'' ''c1'' ?data, True) \<in>
     set (newCalls (store ?s) (store (handleEditClient exampleEnv ?s)))"
    by (simp add: example_defs editPage_def aliceEdited_def handler_defs toLowerCase_examples)
  have c: "map (\<lambda>d. (snd d ''id'', snd d ''selfOnboarded'', snd d ''email''))
     (db (store (handleEditClient exampleEnv ?s)) ''clients'') =
     [(Some (Str ''c1''), Some (Bool True), Some (Str ''a@x.com'')),
      (None, None, Some (Str ''b@x.com''))]"
    by (simp add: example_defs editPage_def aliceEdited_def handler_defs toLowerCase_examples)
  have d: "editingTask ?t = Some (fromDoc task1)"
    by (simp add: taskPage_def)
  have e: "(UpdateDoc ''tasks'' ''t1'' ?tdata, True) \<in>
     set (newCalls (store ?t) (store (handleAddTask exampleEnv ?t)))"
    by (simp add: example_defs handler_defs handleAddTask_def afterSubmit_def fetchTasks_def)
  have f: "map (\<lambda>d. (snd d ''id'', snd d ''updatedAt''))
     (db (store (handleAddTask exampleEnv ?t)) ''tasks'') =
     [(Some (Str ''t1''), Some (Str (now exampleEnv)))]"
    by (simp add: example_defs handler_defs handleAddTask_def afterSubmit_def fetchTasks_def)
  from edit_spreads_whole_record [of ?s aliceEdited "''clients''" "''c1''" ?data True exampleEnv] a b
  have t1: "?data ''id'' = Some (Str ''c1'')" "\<forall>k. k \<noteq> ''email'' \<longrightarrow> ?data k = aliceEdited k"
    by blast+
  have t1': "?data ''selfOnboarded'' = Some (Bool True)"
    using t1(2) by (simp add: aliceEdited_def)
  from edit_spreads_whole_record
         [of _ _ "''tasks''" "''t1''" ?tdata True exampleEnv ?t "fromDoc task1"] d e
  have t2: "?tdata ''id'' = Some (Str ''t1'')"
    by blast
  show ?thesis
    using a b c d e f t1(1) t1' t2 by blast
qed

text \<open>
  Claim C10, as the code has it. \<open>handleEditClient\<close> has no guard on the current user:
  without one, reading \<open>currentUser.uid\<close> throws a TypeError, inside the \<open>try\<close> of the
  duplicate check, whose \<open>catch\<close> shows its message and returns; nothing reaches the
  store and the state is otherwise unchanged. \<open>handleAddClient\<close> returns with its own
  message before any call.
\<close>

theorem handleEditClient_without_user:
  assumes "currentUser s = None" and "editingClient s = Some ec"
  shows "editQueries e s ec = (Inl TypeError, store s) \<and>
         handleEditClient e s =
           showAlert ''Error checking for duplicate clients.'' AlertError s \<and>
         handleAddClient e s =
           showAlert ''You must be logged in to add a client.'' AlertError s"
  using assms by (simp add: editQueries_def handleEditClient_def handleAddClient_def)

theorem handleEditClient_without_user_witness:
  "currentUser (clientPage None [alice] emptyDraft (Some (fromDoc alice))) = None \<and>
   editingClient (clientPage None [alice] emptyDraft (Some (fromDoc alice))) =
     Some (fromDoc alice) \<and>
   fst (editQueries exampleEnv (clientPage None [alice] emptyDraft (Some (fromDoc alice)))
          (fromDoc alice)) = Inl TypeError \<and>
   alerts (handleEditClient exampleEnv
      (clientPage None [alice] emptyDraft (Some (fromDoc alice)))) =
     [(''Error checking for duplicate clients.'', AlertError)] \<and>
   alerts (handleAddClient exampleEnv
      (clientPage None [alice] emptyDraft (Some (fromDoc alice)))) =
     [(''You must be logged in to add a client.'', AlertError)]"
  using handleEditClient_without_user
    [of "clientPage None [alice] emptyDraft (Some (fromDoc alice))" "fromDoc alice" exampleEnv]
  by (simp add: clientPage_def showAlert_def)

text \<open>
  Claim C10 as stated, with nobody signed in and a client being edited: the Edit ends in
  the error message of the duplicate check, no call is recorded and the buffer is kept.
\<close>

theorem handleEditClient_no_user_counterexample:
  "currentUser (clientPage None [clientDoc ''c1'' ''A'' ''a@x.com'' ''1'' ''U''] 
       \<lparr>name = [], email = [], phone = []\<rparr>
       (Some (fromDoc (clientDoc ''c1'' ''A'' ''a@x.com'' ''1'' ''U'')))) = None \<and>
   alerts (handleEditClient exampleEnv
     (clientPage None [clientDoc ''c1'' ''A'' ''a@x.com'' ''1'' ''U''] 
       \<lparr>name = [], email = [], phone = []\<rparr>
       (Some (fromDoc (clientDoc ''c1'' ''A'' ''a@x.com'' ''1'' ''U''))))) =
     [(''Error checking for duplicate clients.'', AlertError)] \<and>
   calls (store (handleEditClient exampleEnv
     (clientPage None [clientDoc ''c1'' ''A'' ''a@x.com'' ''1'' ''U''] 
       \<lparr>name = [], email = [], phone = []\<rparr>
       (Some (fromDoc (clientDoc ''c1'' ''A'' ''a@x.com'' ''1'' ''U'')))))) = [] \<and>
   editingClient (handleEditClient exampleEnv
     (clientPage None [clientDoc ''c1'' ''A'' ''a@x.com'' ''1'' ''U''] 
       \<lparr>name = [], email = [], phone = []\<rparr>
       (Some (fromDoc (clientDoc ''c1'' ''A'' ''a@x.com'' ''1'' ''U''))))) \<noteq> None"
  by (simp add: example_defs handler_defs)

end
